theory Spec2Isabelle
  imports Complex_Main "HOL-Library.Word"
begin

section \<open>Python values used by scdl\<close>

text \<open>
  A Python \<open>str\<close> is a sequence of Unicode code points, \<open>bytes\<close> a sequence of octets.
  \<open>py\<close> turns an ASCII literal into a \<open>str\<close>.
\<close>

type_synonym pystr = "nat list"
type_synonym byte = "8 word"

definition py :: "string \<Rightarrow> pystr" where
  "py s = map of_char s"

text \<open>\<open>str.isspace\<close> of one code point (the table of CPython's \<open>_PyUnicode_IsWhitespace\<close>).\<close>

definition isspace :: "nat \<Rightarrow> bool" where
  "isspace ch \<longleftrightarrow>
     (9 \<le> ch \<and> ch \<le> 13) \<or> (28 \<le> ch \<and> ch \<le> 32) \<or> ch = 0x85 \<or> ch = 0xA0 \<or> ch = 0x1680 \<or>
     (0x2000 \<le> ch \<and> ch \<le> 0x200A) \<or> ch = 0x2028 \<or> ch = 0x2029 \<or> ch = 0x202F \<or>
     ch = 0x205F \<or> ch = 0x3000"

text \<open>\<open>s.strip()\<close>.\<close>

definition str_strip :: "pystr \<Rightarrow> pystr" where
  "str_strip s = rev (dropWhile isspace (rev (dropWhile isspace s)))"

text \<open>\<open>s.startswith(p)\<close>.\<close>

definition str_startswith :: "pystr \<Rightarrow> pystr \<Rightarrow> bool" where
  "str_startswith s p \<longleftrightarrow> take (length p) s = p"

text \<open>\<open>s.find(sub)\<close>: the index of the first occurrence, \<open>None\<close> for Python's \<open>-1\<close>.\<close>

fun str_find :: "pystr \<Rightarrow> pystr \<Rightarrow> nat option" where
  "str_find [] sub = (if sub = [] then Some 0 else None)"
| "str_find (ch # s) sub =
     (if str_startswith (ch # s) sub then Some 0 else map_option Suc (str_find s sub))"

text \<open>\<open>sub in s\<close>.\<close>

definition str_contains :: "pystr \<Rightarrow> pystr \<Rightarrow> bool" where
  "str_contains s sub \<longleftrightarrow> str_find s sub \<noteq> None"

text \<open>\<open>s.split(sep, maxsplit=1)\<close> for a non-empty \<open>sep\<close>.\<close>

definition str_split1 :: "pystr \<Rightarrow> pystr \<Rightarrow> pystr list" where
  "str_split1 s sep =
     (case str_find s sep of
        None \<Rightarrow> [s]
      | Some i \<Rightarrow> [take i s, drop (i + length sep) s])"

text \<open>
  \<open>int(s)\<close> in base 10: surrounding whitespace is dropped, then an optional sign and
  decimal digits, single underscores allowed between digits. \<open>None\<close> stands for
  \<open>ValueError\<close>. CPython keeps code points below 127 as they are and strips the C
  whitespace among them; a Unicode space from 127 on counts as a blank. Decimal digits
  outside ASCII, which CPython also reads, are not digits of this model, and the number
  of digits is not limited.
\<close>

definition int_space :: "nat \<Rightarrow> bool" where
  "int_space ch \<longleftrightarrow> (9 \<le> ch \<and> ch \<le> 13) \<or> ch = 32 \<or> (127 \<le> ch \<and> isspace ch)"

definition isdigit :: "nat \<Rightarrow> bool" where
  "isdigit ch \<longleftrightarrow> 48 \<le> ch \<and> ch \<le> 57"

fun int_digits :: "nat \<Rightarrow> pystr \<Rightarrow> nat option" where
  "int_digits acc [] = Some acc"
| "int_digits acc [ch] = (if isdigit ch then Some (acc * 10 + (ch - 48)) else None)"
| "int_digits acc (ch # d # s) =
     (if ch = 95 then (if isdigit d then int_digits (acc * 10 + (d - 48)) s else None)
      else if isdigit ch then int_digits (acc * 10 + (ch - 48)) (d # s)
      else None)"

definition int_unsigned :: "pystr \<Rightarrow> nat option" where
  "int_unsigned s =
     (case s of
        [] \<Rightarrow> None
      | ch # t \<Rightarrow> if isdigit ch then int_digits (ch - 48) t else None)"

definition py_int :: "pystr \<Rightarrow> int option" where
  "py_int s =
     (case rev (dropWhile int_space (rev (dropWhile int_space s))) of
        [] \<Rightarrow> None
      | ch # t \<Rightarrow>
          if ch = 45 then map_option (\<lambda>n. - int n) (int_unsigned t)
          else if ch = 43 then map_option int (int_unsigned t)
          else map_option int (int_unsigned (ch # t)))"

text \<open>\<open>str(n)\<close> of an integer: its decimal digits, with a minus sign when negative.\<close>

fun str_nat :: "nat \<Rightarrow> pystr" where
  "str_nat n = (if n < 10 then [48 + n] else str_nat (n div 10) @ [48 + n mod 10])"

declare str_nat.simps [simp del]

definition py_str :: "int \<Rightarrow> pystr" where
  "py_str i = (if i < 0 then 45 # str_nat (nat (- i)) else str_nat (nat i))"

section \<open>Exceptions and results\<close>

text \<open>
  \<open>SoundCloudException\<close> is the one exception class scdl defines; \<open>download_track\<close>
  catches it. \<open>sys.exit(n)\<close> raises \<open>SystemExit\<close>, which no handler of scdl catches:
  it ends the invocation with status \<open>n\<close>. \<open>OSError\<close> stands for itself, its alias
  \<open>IOError\<close> and its subclasses (\<open>FileNotFoundError\<close>, \<open>IsADirectoryError\<close>);
  \<open>RequestException\<close> for \<open>requests.RequestException\<close> and its subclasses.
\<close>

datatype exn =
    SoundCloudException pystr
  | SystemExit int
  | ValueError
  | TypeError
  | OSError
  | RequestException

datatype 'a result = Returns 'a | Raises exn

section \<open>Command-line options\<close>

text \<open>The entries of \<open>kwargs\<close> that the modelled functions read.\<close>

record kwargs =
  kw_min_size :: "int option"
  kw_max_size :: "int option"
  kw_hide_progress :: bool
  kw_flac :: bool
  kw_overwrite :: bool
  kw_c :: bool
  kw_remove :: bool
  kw_force_metadata :: bool
  kw_download_archive :: "pystr option"
  kw_sync :: "pystr option"
  kw_original_art :: bool
  kw_extract_artist :: bool
  kw_name_format :: pystr
  kw_onlymp3 :: bool
  kw_no_original :: bool
  kw_only_original :: bool
  kw_original_metadata :: bool

definition no_options :: kwargs where
  "no_options =
     \<lparr>kw_min_size = None, kw_max_size = None, kw_hide_progress = False, kw_flac = False,
      kw_overwrite = False, kw_c = False, kw_remove = False, kw_force_metadata = False,
      kw_download_archive = None, kw_sync = None, kw_original_art = False,
      kw_extract_artist = False, kw_name_format = py ''{title}'', kw_onlymp3 = False,
      kw_no_original = False, kw_only_original = False, kw_original_metadata = False\<rparr>"

section \<open>Size bounds and the stream copy\<close>

text \<open>
  A streaming response: the \<open>content-length\<close> header (absent or text) and what the
  successive calls \<open>response.raw.read(chunk_size)\<close> return. An empty chunk, or the end
  of the list, is the end of the stream (\<open>iter(..., b'')\<close> stops there).
\<close>

record response =
  content_length :: "pystr option"
  raw :: "byte list list"

text \<open>
  The sink \<open>pipe\<close>: a file, a process pipe or an \<open>io.BytesIO\<close>. It accepts every
  write; \<open>flushed\<close> says that nothing written is still buffered.
\<close>

record sink =
  written :: "byte list"
  flushed :: bool
  closed :: bool
  is_BytesIO :: bool

definition chunk_size :: nat where
  "chunk_size = 8192"

definition bounds_message :: pystr where
  "bounds_message = py ''File not within --min-size and --max-size bounds''"

definition pipe_write :: "sink \<Rightarrow> byte list \<Rightarrow> sink" where
  "pipe_write pipe b = pipe\<lparr>written := written pipe @ b, flushed := False\<rparr>"

text \<open>
  The \<open>for chunk in ...\<close> loop. A chunk goes through a view of the 8192-byte buffer:
  \<open>buffer_view[:] = chunk\<close> raises \<open>ValueError\<close> for a chunk longer than the buffer.
  The loop gives the exception if any, \<open>received\<close>, the unread rest and the sink.
\<close>

fun receive_loop ::
  "byte list list \<Rightarrow> int \<Rightarrow> sink \<Rightarrow> exn option \<times> int \<times> byte list list \<times> sink" where
  "receive_loop [] received pipe = (None, received, [], pipe)"
| "receive_loop (chunk # rest) received pipe =
     (if chunk = [] then (None, received, rest, pipe)
      else if chunk_size < length chunk then (Some ValueError, received, rest, pipe)
      else receive_loop rest (received + int (length chunk)) (pipe_write pipe chunk))"

definition write_streaming_response_to_pipe ::
  "response \<Rightarrow> sink \<Rightarrow> kwargs \<Rightarrow> unit result \<times> byte list list \<times> sink" where
  "write_streaming_response_to_pipe response pipe kwargs =
     (case content_length response of
        None \<Rightarrow> (Raises TypeError, raw response, pipe)
      | Some header \<Rightarrow>
          (case py_int header of
             None \<Rightarrow> (Raises ValueError, raw response, pipe)
           | Some total_length \<Rightarrow>
               let min_size = (case kw_min_size kwargs of None \<Rightarrow> 0 | Some v \<Rightarrow> v);
                   max_size = (case kw_max_size kwargs of
                                 None \<Rightarrow> None
                               | Some v \<Rightarrow> if v = 0 then None else Some v)
               in if \<not> (min_size \<le> total_length \<and>
                         (case max_size of None \<Rightarrow> True | Some m \<Rightarrow> total_length \<le> m))
                  then (Raises (SoundCloudException bounds_message), raw response, pipe)
                  else
                    (case receive_loop (raw response) 0 pipe of
                       (Some e, received, rest, pipe1) \<Rightarrow> (Raises e, rest, pipe1)
                     | (None, received, rest, pipe1) \<Rightarrow>
                         let pipe2 = pipe1\<lparr>flushed := True\<rparr> in
                         if received \<noteq> total_length then (Raises (SystemExit 1), rest, pipe2)
                         else if \<not> is_BytesIO pipe2
                              then (Returns (), rest, pipe2\<lparr>closed := True\<rparr>)
                              else (Returns (), rest, pipe2))))"

text \<open>\<open>_copy_stream\<close>: the copy into a fresh \<open>io.BytesIO\<close>, returned on success.\<close>

definition new_BytesIO :: sink where
  "new_BytesIO = \<lparr>written = [], flushed = True, closed = False, is_BytesIO = True\<rparr>"

definition copy_stream :: "response \<Rightarrow> kwargs \<Rightarrow> sink result \<times> byte list list" where
  "copy_stream in_data kwargs =
     (case write_streaming_response_to_pipe in_data new_BytesIO kwargs of
        (Returns u, rest, result) \<Rightarrow> (Returns result, rest)
      | (Raises e, rest, result) \<Rightarrow> (Raises e, rest))"

text \<open>
  \<open>get_transcoding_m3u8\<close>: the size estimated from the preset's bitrate
  (\<open>256 / 8\<close> or \<open>128 / 8\<close> kilobytes per second, times the duration in milliseconds),
  the same bounds, then the request for the playlist locator. \<open>fetch\<close> stands for
  \<open>requests.get(url, ...).json()["url"]\<close>. The Python product is a float; it is the
  integer below for every duration under \<open>2 ^ 48\<close> ms.
\<close>

record transcoding =
  t_url :: "pystr option"
  t_preset :: pystr
  t_duration :: int

definition get_transcoding_m3u8 ::
  "(pystr \<Rightarrow> pystr result) \<Rightarrow> transcoding \<Rightarrow> kwargs \<Rightarrow> pystr option result" where
  "get_transcoding_m3u8 fetch t kwargs =
     (let bitrate_KBps = (if str_contains (t_preset t) (py ''aac'') then 256 div 8 else 128 div 8);
          total_bytes = bitrate_KBps * t_duration t;
          min_size = (case kw_min_size kwargs of None \<Rightarrow> 0 | Some v \<Rightarrow> v);
          max_size = (case kw_max_size kwargs of
                        None \<Rightarrow> None
                      | Some v \<Rightarrow> if v = 0 then None else Some v)
      in if \<not> (min_size \<le> total_bytes \<and>
                (case max_size of None \<Rightarrow> True | Some m \<Rightarrow> total_bytes \<le> m))
         then Raises (SoundCloudException bounds_message)
         else (case t_url t of
                 None \<Rightarrow> Returns None
               | Some url \<Rightarrow>
                   (case fetch url of
                      Raises e \<Rightarrow> Raises e
                    | Returns u \<Rightarrow> Returns (Some u))))"

section \<open>The transcoding process\<close>

definition is_ffmpeg_progress_line :: "pystr list \<Rightarrow> bool" where
  "is_ffmpeg_progress_line parameters \<longleftrightarrow>
     length parameters = 2 \<and>
     hd parameters \<in> set (map py
       [''progress'', ''speed'', ''drop_frames'', ''dup_frames'', ''out_time'',
        ''out_time_ms'', ''out_time_us'', ''total_size'', ''bitrate''])"

definition is_unsupported_codec_for_streaming :: "pystr \<Rightarrow> bool" where
  "is_unsupported_codec_for_streaming codec \<longleftrightarrow> codec \<in> set [py ''ipod'']"

text \<open>
  The spawned engine as its parent sees it: the lines \<open>pipe.stderr.readline()\<close> gives
  one after the other (an empty line, or the end of the list, is the end of the
  channel), the chunks read from its output channel, its exit code, and the content
  of the temporary output file once it has exited (\<open>None\<close> when there is none). The
  thread that feeds the input channel runs beside the parent and its outcome never
  reaches it (\<open>join\<close> does not re-raise), so the feed is not part of this record.
\<close>

record process =
  stderr_lines :: "pystr list"
  stdout_chunks :: "byte list list"
  returncode :: int
  out_file :: "byte list option"

text \<open>
  Python's \<open>float\<close> is the binary64 format of IEEE 754: 53 significant bits, exponents
  from -1022 to 1023, and below them the subnormal numbers, spaced by \<open>2 ^ -1074\<close>. A
  finite float is the rational number it denotes. \<open>round64\<close> rounds a rational to the
  nearest float, ties to the even significand: \<open>int / int\<close> is the quotient so
  rounded, and \<open>float - float\<close> the difference so rounded. \<open>float_exponent\<close> looks
  for the exponent of a positive number in at most 2200 steps, more than the exponents
  of the format span. Beyond the largest float (a position of more than 308 digits)
  Python raises \<open>OverflowError\<close> for the quotient and gives an infinity for the
  difference; the model stays at the largest float there.
\<close>

definition rne :: "rat \<Rightarrow> int" where
  "rne x =
     (let f = \<lfloor>x\<rfloor>; r = x - of_int f
      in if r < 1 / 2 then f else if 1 / 2 < r then f + 1 else if even f then f else f + 1)"

definition pow2 :: "int \<Rightarrow> rat" where
  "pow2 e = (if 0 \<le> e then 2 ^ nat e else 1 / 2 ^ nat (- e))"

fun float_exponent :: "nat \<Rightarrow> rat \<Rightarrow> int" where
  "float_exponent fuel x =
     (if fuel = 0 then 0
      else if 2 \<le> x then float_exponent (fuel - 1) (x / 2) + 1
      else if x < 1 then float_exponent (fuel - 1) (x * 2) - 1
      else 0)"

declare float_exponent.simps [simp del]

definition max_float :: rat where
  "max_float = (2 ^ 53 - 1) * 2 ^ 971"

definition round64 :: "rat \<Rightarrow> rat" where
  "round64 x =
     (if x = 0 then 0
      else
        (let e = max (float_exponent 2200 \<bar>x\<bar>) (- 1022);
             m = rne (\<bar>x\<bar> / pow2 (e - 52));
             r = (if 1024 \<le> e \<or> (e = 1023 \<and> 2 ^ 53 \<le> m) then max_float
                  else of_int m * pow2 (e - 52))
         in if x < 0 then - r else r))"

text \<open>
  The loop over the diagnostic lines, with the state \<open>errors_output\<close>, \<open>last_secs\<close>
  and the list of the values passed to \<open>progress.update\<close>. \<open>min\<close> and the
  comparisons are exact in Python; the integer 0 of a malformed value and of the first
  \<open>last_secs\<close> is the float 0 in the difference.
\<close>

fun read_progress ::
  "rat \<Rightarrow> pystr list \<Rightarrow> pystr \<Rightarrow> rat \<Rightarrow> rat list \<Rightarrow> pystr \<times> rat \<times> rat list" where
  "read_progress total_sec [] errors_output last_secs updates =
     (errors_output, last_secs, updates)"
| "read_progress total_sec (line # lines) errors_output last_secs updates =
     (if line = [] then (errors_output, last_secs, updates)
      else if \<not> is_ffmpeg_progress_line (str_split1 line (py ''=''))
      then read_progress total_sec lines (errors_output @ line) last_secs updates
      else if \<not> str_startswith line (py ''out_time_ms'')
      then read_progress total_sec lines errors_output last_secs updates
      else
        (let parsed = (case py_int (str_split1 line (py ''='') ! 1) of
                         None \<Rightarrow> 0
                       | Some v \<Rightarrow> round64 (rat_of_int v / 1000000));
             seconds = min parsed total_sec;
             changed = round64 (seconds - last_secs)
         in read_progress total_sec lines errors_output seconds (updates @ [changed])))"

text \<open>\<open>read_stdout\<close>: the chunks of the output channel up to its end.\<close>

definition read_stdout :: "byte list list \<Rightarrow> byte list" where
  "read_stdout chunks = concat (takeWhile (\<lambda>chunk. chunk \<noteq> []) chunks)"

text \<open>
  \<open>_re_encode_ffmpeg\<close>, from the spawned \<open>pipe\<close> on: the result, and what the
  progress observer was given.
\<close>

definition re_encode_ffmpeg :: "process \<Rightarrow> pystr \<Rightarrow> int \<Rightarrow> sink result \<times> rat list" where
  "re_encode_ffmpeg pipe out_codec track_duration_ms =
     (let streaming_supported = \<not> is_unsupported_codec_for_streaming out_codec;
          stdout = (if streaming_supported then read_stdout (stdout_chunks pipe) else []);
          total_sec = round64 (rat_of_int track_duration_ms / 1000)
      in case read_progress total_sec (stderr_lines pipe) [] 0 [] of
           (errors_output, last_secs, updates) \<Rightarrow>
             if returncode pipe \<noteq> 0
             then (Raises (SoundCloudException
                     (py ''FFmpeg error('' @ py_str (returncode pipe) @ py ''): '' @ errors_output)),
                   updates)
             else if \<not> streaming_supported
             then (case out_file pipe of
                     None \<Rightarrow> (Raises OSError, updates)
                   | Some data \<Rightarrow> (Returns (new_BytesIO\<lparr>written := stdout @ data\<rparr>), updates))
             else (Returns (new_BytesIO\<lparr>written := stdout\<rparr>), updates))"

section \<open>Files and the download archive\<close>

text \<open>
  The file system as scdl uses it: a path names a regular file with its text, or a
  directory, or nothing. A binary file is kept as the code points of its bytes.
  Opening a directory raises \<open>OSError\<close>. Every file can be read and written and
  every directory can be written. File locks are taken and released around the archive
  accesses; the model is one process, which gets every lock whose lock file it can
  create, and the lock files beside the archive are not among its files.
\<close>

datatype node = File pystr | Directory

type_synonym fs = "pystr \<Rightarrow> node option"

definition isfile :: "fs \<Rightarrow> pystr \<Rightarrow> bool" where
  "isfile files path \<longleftrightarrow> (case files path of Some (File text) \<Rightarrow> True | _ \<Rightarrow> False)"

text \<open>The text of a file, empty when the path names no file.\<close>

definition file_text :: "fs \<Rightarrow> pystr \<Rightarrow> pystr" where
  "file_text files path = (case files path of Some (File text) \<Rightarrow> text | _ \<Rightarrow> [])"

text \<open>
  Reading in text mode: \<open>\r\n\<close> and \<open>\r\<close> become \<open>\n\<close>, and a file is iterated
  line by line, each line with its \<open>\n\<close>.
\<close>

fun universal_newlines :: "pystr \<Rightarrow> pystr" where
  "universal_newlines [] = []"
| "universal_newlines [ch] = [if ch = 13 then 10 else ch]"
| "universal_newlines (ch # d # s) =
     (if ch = 13 then (if d = 10 then 10 # universal_newlines s
                       else 10 # universal_newlines (d # s))
      else ch # universal_newlines (d # s))"

fun readlines :: "pystr \<Rightarrow> pystr list" where
  "readlines [] = []"
| "readlines (ch # s) =
     (if ch = 10 then [10] # readlines s
      else (case readlines s of [] \<Rightarrow> [[ch]] | line # lines \<Rightarrow> (ch # line) # lines))"

text \<open>\<open>os.path.splitext\<close> (POSIX) and \<open>can_convert\<close>.\<close>

definition rfind :: "pystr \<Rightarrow> nat \<Rightarrow> int" where
  "rfind p ch = (case filter (\<lambda>i. p ! i = ch) (rev [0..<length p]) of
                   [] \<Rightarrow> - 1
                 | i # others \<Rightarrow> int i)"

definition splitext :: "pystr \<Rightarrow> pystr \<times> pystr" where
  "splitext p =
     (let sepIndex = rfind p 47; dotIndex = rfind p 46
      in if sepIndex < dotIndex \<and>
            list_ex (\<lambda>i. p ! i \<noteq> 46) [nat (sepIndex + 1)..<nat dotIndex]
         then (take (nat dotIndex) p, drop (nat dotIndex) p)
         else (p, []))"

definition can_convert :: "pystr \<Rightarrow> bool" where
  "can_convert filename \<longleftrightarrow>
     (let ext = snd (splitext filename)
      in str_contains ext (py ''wav'') \<or> str_contains ext (py ''aif''))"

text \<open>
  Opening a path that names nothing in the modes \<open>a\<close> and \<open>a+\<close> creates an empty
  file when the directory of the path exists, and raises \<open>OSError\<close>
  (\<open>FileNotFoundError\<close>, \<open>NotADirectoryError\<close>) when that directory is missing or is
  a regular file; the lock file of \<open>get_filelock\<close> lies in the same directory.
  \<open>dirname\<close> is \<open>os.path.dirname\<close> (POSIX); the directory of a bare name is the
  current directory and that of \<open>/name\<close> is the root, which both exist.
\<close>

definition dirname :: "pystr \<Rightarrow> pystr" where
  "dirname p =
     (let head = take (nat (rfind p 47 + 1)) p
      in if head \<noteq> [] \<and> \<not> list_all (\<lambda>ch. ch = 47) head
         then rev (dropWhile (\<lambda>ch. ch = 47) (rev head))
         else head)"

definition can_create :: "fs \<Rightarrow> pystr \<Rightarrow> bool" where
  "can_create files path \<longleftrightarrow>
     list_all (\<lambda>ch. ch = 47) (dirname path) \<or> files (dirname path) = Some Directory"

text \<open>The fields of a track that the modelled functions read.\<close>

record track =
  track_id :: int
  track_title :: pystr
  track_policy :: pystr
  track_downloadable :: bool
  track_user_id :: int
  track_permalink_url :: pystr
  track_username :: pystr
  track_artwork_url :: "pystr option"
  track_avatar_url :: pystr

text \<open>
  \<open>in_download_archive\<close>. The result \<open>None\<close> is the bare \<open>return\<close> without an
  archive. Mode \<open>a+\<close> changes no existing file and creates a missing one where it
  can; where the lock or the file cannot be opened, \<open>except IOError\<close> logs the error
  and the function returns \<open>False\<close>.
\<close>

definition in_download_archive :: "track \<Rightarrow> kwargs \<Rightarrow> fs \<Rightarrow> bool option \<times> fs" where
  "in_download_archive track kwargs files =
     (case kw_download_archive kwargs of
        None \<Rightarrow> (None, files)
      | Some archive_filename \<Rightarrow>
          if archive_filename = [] then (None, files)
          else
            (case files archive_filename of
               Some Directory \<Rightarrow> (Some False, files)
             | None \<Rightarrow>
                 if can_create files archive_filename
                 then (Some False, files(archive_filename \<mapsto> File []))
                 else (Some False, files)
             | Some (File text) \<Rightarrow>
                 (Some (list_ex (\<lambda>line. str_strip line = py_str (track_id track))
                          (readlines (universal_newlines text))),
                  files)))"

text \<open>
  \<open>record_download_archive\<close>: mode \<open>a\<close>, one write of the ID and a newline. Where
  the lock or the file cannot be opened, \<open>except IOError\<close> logs the error and nothing
  is written.
\<close>

definition record_download_archive :: "track \<Rightarrow> kwargs \<Rightarrow> fs \<Rightarrow> fs" where
  "record_download_archive track kwargs files =
     (case kw_download_archive kwargs of
        None \<Rightarrow> files
      | Some archive_filename \<Rightarrow>
          if archive_filename = [] then files
          else
            (case files archive_filename of
               Some Directory \<Rightarrow> files
             | None \<Rightarrow>
                 if can_create files archive_filename
                 then files(archive_filename \<mapsto> File (py_str (track_id track) @ [10]))
                 else files
             | Some (File text) \<Rightarrow>
                 files(archive_filename \<mapsto> File (text @ py_str (track_id track) @ [10]))))"

text \<open>
  \<open>already_downloaded\<close>, with the successive values of its flag. The archive is read
  only when one is configured (\<open>and\<close> short-circuits).
\<close>

definition already_downloaded ::
  "track \<Rightarrow> pystr \<Rightarrow> pystr \<Rightarrow> kwargs \<Rightarrow> fs \<Rightarrow> bool result \<times> fs" where
  "already_downloaded track title filename kwargs files =
     (let flag1 = isfile files filename;
          flag2 = (if kw_flac kwargs \<and> can_convert filename \<and>
                      isfile files (take (length filename - 4) filename @ py ''.flac'')
                   then True else flag1);
          archive = (case kw_download_archive kwargs of
                       None \<Rightarrow> (None, files)
                     | Some archive_filename \<Rightarrow>
                         if archive_filename = [] then (None, files)
                         else in_download_archive track kwargs files);
          files1 = snd archive;
          flag3 = (if fst archive = Some True then True else flag2);
          flag4 = (if kw_flac kwargs \<and> can_convert filename \<and> isfile files1 filename
                   then False else flag3);
          flag5 = (if kw_overwrite kwargs then False else flag4)
      in if flag5
         then (if kw_c kwargs \<or> kw_remove kwargs \<or> kw_force_metadata kwargs
               then (Returns True, files1)
               else (Raises (SystemExit 1), files1))
         else (Returns False, files1))"

section \<open>The download of one track\<close>

text \<open>
  What \<open>download_track\<close> asks of the catalog, the naming subsystem, the network and
  the tagging library, as values:
  \<^item> whether the client holds an auth token, and the ID of its user;
  \<^item> whether the per-track lock (timeout 0) can be taken;
  \<^item> \<open>original_filename\<close>: \<open>download_original_file\<close> up to its check for an
    existing file: an exception, \<open>None\<close> when the original cannot be had (no link,
    status 401 or 404), or the target filename;
  \<^item> \<open>hls_filename\<close>: the same for \<open>download_hls\<close> (an exception when no transcoding
    fits);
  \<^item> \<open>transfer\<close>: the fetch and \<open>re_encode_to_out\<close>, which writes the target file or
    raises;
  \<^item> \<open>add_metadata\<close>: \<open>_add_metadata_to_stream\<close> on the bytes of an existing file.
\<close>

record collaborators =
  auth_token :: bool
  me_id :: int
  lock_free :: bool
  original_filename :: "pystr option result"
  hls_filename :: "pystr result"
  transfer :: "pystr \<Rightarrow> fs \<Rightarrow> unit result \<times> fs"
  add_metadata :: "pystr \<Rightarrow> pystr result"

text \<open>The state of one invocation: the files and the global list \<open>fileToKeep\<close>.\<close>

record world =
  files :: fs
  fileToKeep :: "pystr list"

definition is_downloading_to_stdout :: "kwargs \<Rightarrow> bool" where
  "is_downloading_to_stdout kwargs \<longleftrightarrow> kw_name_format kwargs = py ''-''"

text \<open>
  The common end of \<open>download_original_file\<close> and \<open>download_hls\<close>: the check for an
  existing file unless the target is stdout, then the transfer.
\<close>

definition check_and_transfer ::
  "collaborators \<Rightarrow> track \<Rightarrow> pystr \<Rightarrow> pystr \<Rightarrow> kwargs \<Rightarrow> fs \<Rightarrow> (pystr \<times> bool) result \<times> fs" where
  "check_and_transfer env track title filename kwargs fs0 =
     (case (if \<not> is_downloading_to_stdout kwargs
            then already_downloaded track title filename kwargs fs0
            else (Returns False, fs0)) of
        (Raises e, fs1) \<Rightarrow> (Raises e, fs1)
      | (Returns True, fs1) \<Rightarrow> (Returns (filename, True), fs1)
      | (Returns False, fs1) \<Rightarrow>
          (case transfer env filename fs1 of
             (Raises e, fs2) \<Rightarrow> (Raises e, fs2)
           | (Returns u, fs2) \<Rightarrow> (Returns (filename, False), fs2)))"

definition download_original_file ::
  "collaborators \<Rightarrow> track \<Rightarrow> pystr \<Rightarrow> kwargs \<Rightarrow> fs \<Rightarrow> (pystr option \<times> bool) result \<times> fs" where
  "download_original_file env track title kwargs fs0 =
     (case original_filename env of
        Raises e \<Rightarrow> (Raises e, fs0)
      | Returns None \<Rightarrow> (Returns (None, False), fs0)
      | Returns (Some filename) \<Rightarrow>
          (case check_and_transfer env track title filename kwargs fs0 of
             (Raises e, fs1) \<Rightarrow> (Raises e, fs1)
           | (Returns (name, is_already_downloaded), fs1) \<Rightarrow>
               (Returns (Some name, is_already_downloaded), fs1)))"

definition download_hls ::
  "collaborators \<Rightarrow> track \<Rightarrow> pystr \<Rightarrow> kwargs \<Rightarrow> fs \<Rightarrow> (pystr \<times> bool) result \<times> fs" where
  "download_hls env track title kwargs fs0 =
     (case hls_filename env of
        Raises e \<Rightarrow> (Raises e, fs0)
      | Returns filename \<Rightarrow> check_and_transfer env track title filename kwargs fs0)"

text \<open>
  \<open>download_track\<close>, first part (up to the second \<open>except filelock.Timeout\<close>): the
  result \<open>None\<close> is the \<open>return\<close> after a lock timeout, otherwise the filename and
  \<open>is_already_downloaded\<close>.
\<close>

definition download_track_acquire ::
  "collaborators \<Rightarrow> track \<Rightarrow> pystr \<Rightarrow> kwargs \<Rightarrow> fs \<Rightarrow> (pystr \<times> bool) option result \<times> fs" where
  "download_track_acquire env track title kwargs fs0 =
     (if track_policy track = py ''BLOCK''
      then (Raises (SoundCloudException (title @ py '' is not available in your location...'')),
            fs0)
      else
        (let client_user_id = (if auth_token env then Some (me_id env) else None)
         in case (if (track_downloadable track \<or> Some (track_user_id track) = client_user_id) \<and>
                     \<not> kw_onlymp3 kwargs \<and> \<not> kw_no_original kwargs \<and> auth_token env
                  then (if lock_free env
                        then (case download_original_file env track title kwargs fs0 of
                                (Raises e, fs1) \<Rightarrow> (Raises e, fs1)
                              | (Returns r, fs1) \<Rightarrow> (Returns (Some r), fs1))
                        else (Returns None, fs0))
                  else (Returns (Some (None, False)), fs0)) of
              (Raises e, fs1) \<Rightarrow> (Raises e, fs1)
            | (Returns None, fs1) \<Rightarrow> (Returns None, fs1)
            | (Returns (Some (Some filename, is_already_downloaded)), fs1) \<Rightarrow>
                (Returns (Some (filename, is_already_downloaded)), fs1)
            | (Returns (Some (None, is_already_downloaded)), fs1) \<Rightarrow>
                if kw_only_original kwargs
                then (Raises (SoundCloudException
                        (py ''Track '' @ [34] @ track_permalink_url track @ [34] @
                         py '' does not have original file available. Not downloading...'')),
                      fs1)
                else if lock_free env
                then (case download_hls env track title kwargs fs1 of
                        (Raises e, fs2) \<Rightarrow> (Raises e, fs2)
                      | (Returns r, fs2) \<Rightarrow> (Returns (Some r), fs2))
                else (Returns None, fs1)))"

text \<open>
  \<open>download_track\<close>, second part (from \<open>if kwargs.get("remove")\<close> on). The file's
  modification time is not part of the model.
\<close>

definition download_track_finish ::
  "collaborators \<Rightarrow> track \<Rightarrow> pystr \<Rightarrow> bool \<Rightarrow> kwargs \<Rightarrow> world \<Rightarrow> unit result \<times> world" where
  "download_track_finish env track filename is_already_downloaded kwargs w =
     (let w1 = (if kw_remove kwargs then w\<lparr>fileToKeep := fileToKeep w @ [filename]\<rparr> else w);
          w2 = w1\<lparr>files := record_download_archive track kwargs (files w1)\<rparr>;
          to_stdout = is_downloading_to_stdout kwargs
      in if is_already_downloaded \<and> \<not> kw_force_metadata kwargs
         then (Raises (SoundCloudException (filename @ py '' already downloaded.'')), w2)
         else if \<not> isfile (files w2) filename \<and> \<not> to_stdout
         then (Raises (SoundCloudException
                 (py ''An error occurred downloading '' @ filename @ py ''.'')), w2)
         else if is_already_downloaded \<and> kw_force_metadata kwargs
         then (case files w2 filename of
                 Some (File file_data) \<Rightarrow>
                   (case add_metadata env file_data of
                      Raises e \<Rightarrow> (Raises e, w2)
                    | Returns tagged \<Rightarrow>
                        (Returns (), w2\<lparr>files := (files w2)(filename \<mapsto> File tagged)\<rparr>))
               | _ \<Rightarrow> (Raises OSError, w2))
         else (Returns (), w2))"

text \<open>
  The body of the \<open>try\<close> statement of \<open>download_track\<close>. The title is the
  track's: encoding it to UTF-8 and back leaves a text of code points as it is.
\<close>

definition download_track_try ::
  "collaborators \<Rightarrow> track \<Rightarrow> kwargs \<Rightarrow> world \<Rightarrow> unit result \<times> world" where
  "download_track_try env track kwargs w =
     (case download_track_acquire env track (track_title track) kwargs (files w) of
        (Raises e, fs1) \<Rightarrow> (Raises e, w\<lparr>files := fs1\<rparr>)
      | (Returns None, fs1) \<Rightarrow> (Returns (), w\<lparr>files := fs1\<rparr>)
      | (Returns (Some (filename, is_already_downloaded)), fs1) \<Rightarrow>
          download_track_finish env track filename is_already_downloaded kwargs
            (w\<lparr>files := fs1\<rparr>))"

text \<open>
  \<open>download_track\<close>: \<open>except SoundCloudException\<close> ends the track, and the invocation
  too when \<open>exit_on_fail\<close> is set; every other exception, \<open>SystemExit\<close> among them,
  goes through.
\<close>

definition download_track ::
  "collaborators \<Rightarrow> track \<Rightarrow> bool \<Rightarrow> kwargs \<Rightarrow> world \<Rightarrow> unit result \<times> world" where
  "download_track env track exit_on_fail kwargs w =
     (case download_track_try env track kwargs w of
        (Raises (SoundCloudException err), w1) \<Rightarrow>
          (if exit_on_fail then (Raises (SystemExit 1), w1) else (Returns (), w1))
      | (r, w1) \<Rightarrow> (r, w1))"

text \<open>
  \<open>re_encode_to_out\<close> for a streamed original that is copied as it is
  (\<open>skip_re_encoding\<close>) under \<open>--original-metadata\<close>, to a file: \<open>_copy_stream\<close>, no
  tagging, then the buffer is written to \<open>filename\<close>.
\<close>

definition re_encode_to_out_copy ::
  "response \<Rightarrow> kwargs \<Rightarrow> pystr \<Rightarrow> fs \<Rightarrow> unit result \<times> fs" where
  "re_encode_to_out_copy in_data kwargs filename fs0 =
     (case copy_stream in_data kwargs of
        (Raises e, rest) \<Rightarrow> (Raises e, fs0)
      | (Returns encoded, rest) \<Rightarrow>
          (Returns (), fs0(filename \<mapsto> File (map unat (written encoded)))))"

section \<open>Example values\<close>

text \<open>A track, and collaborators for which only an HLS download is possible.\<close>

definition example_track :: track where
  "example_track =
     \<lparr>track_id = 123, track_title = py ''Song'', track_policy = py ''ALLOW'',
      track_downloadable = False, track_user_id = 7,
      track_permalink_url = py ''https://soundcloud.com/a/song'', track_username = py ''a'',
      track_artwork_url = None, track_avatar_url = py ''https://i1.sndcdn.com/avatars-large.jpg''\<rparr>"

definition example_env :: collaborators where
  "example_env =
     \<lparr>auth_token = False, me_id = 0, lock_free = True, original_filename = Returns None,
      hls_filename = Returns (py ''song.mp3''),
      transfer = (\<lambda>filename fs0. (Returns (), fs0(filename \<mapsto> File (py ''audio'')))),
      add_metadata = Returns\<rparr>"

text \<open>
  A response that announces 5 bytes and ends after 3, the options of a plain copy of the
  original, and collaborators whose user owns the track and whose transfer is that copy.
\<close>

definition truncated_response :: response where
  "truncated_response = \<lparr>content_length = Some (py ''5''), raw = [[1, 2, 3]]\<rparr>"

definition original_options :: kwargs where
  "original_options = no_options\<lparr>kw_original_metadata := True\<rparr>"

definition copying_env :: collaborators where
  "copying_env =
     \<lparr>auth_token = True, me_id = 7, lock_free = True,
      original_filename = Returns (Some (py ''song.wav'')),
      hls_filename = Returns (py ''song.mp3''),
      transfer = re_encode_to_out_copy truncated_response original_options,
      add_metadata = Returns\<rparr>"

section \<open>Synchronising a playlist with its archive\<close>

text \<open>\<open>s.split(sep)\<close> for a separator of one character.\<close>

fun str_split_char :: "pystr \<Rightarrow> nat \<Rightarrow> pystr list" where
  "str_split_char [] sep = [[]]"
| "str_split_char (ch # s) sep =
     (if ch = sep then [] # str_split_char s sep
      else (case str_split_char s sep of
              [] \<Rightarrow> [[ch]]
            | part # parts \<Rightarrow> (ch # part) # parts))"

definition audio_extensions :: "pystr list" where
  "audio_extensions = map py [''.mp3'', ''.m4a'', ''.opus'', ''.flac'', ''.wav'']"

text \<open>
  The loop \<open>for ext in (...)\<close> for one removed track: \<open>get_filename\<close> is the naming
  subsystem (with the catalog lookup of the track), \<open>filename in os.listdir(".")\<close>
  holds when the name exists, and \<open>os.remove\<close> of a directory raises. The state is
  \<open>removed\<close>, the log of messages and the files.
\<close>

fun remove_extensions ::
  "(int \<Rightarrow> pystr \<Rightarrow> pystr) \<Rightarrow> int \<Rightarrow> pystr list \<Rightarrow> bool \<Rightarrow> pystr list \<Rightarrow> fs \<Rightarrow>
     exn option \<times> bool \<times> pystr list \<times> fs" where
  "remove_extensions get_filename i [] removed msgs fs0 = (None, removed, msgs, fs0)"
| "remove_extensions get_filename i (ext # exts) removed msgs fs0 =
     (case fs0 (get_filename i ext) of
        None \<Rightarrow> remove_extensions get_filename i exts removed msgs fs0
      | Some Directory \<Rightarrow> (Some OSError, True, msgs, fs0)
      | Some (File text) \<Rightarrow>
          remove_extensions get_filename i exts True
            (msgs @ [py ''Removed '' @ get_filename i ext])
            (fs0(get_filename i ext := None)))"

text \<open>The loop \<open>for track_id in rem\<close>.\<close>

fun remove_tracks ::
  "(int \<Rightarrow> pystr \<Rightarrow> pystr) \<Rightarrow> int list \<Rightarrow> pystr list \<Rightarrow> fs \<Rightarrow> exn option \<times> pystr list \<times> fs" where
  "remove_tracks get_filename [] msgs fs0 = (None, msgs, fs0)"
| "remove_tracks get_filename (i # rem) msgs fs0 =
     (case remove_extensions get_filename i audio_extensions False msgs fs0 of
        (Some e, removed, log1, fs1) \<Rightarrow> (Some e, log1, fs1)
      | (None, removed, log1, fs1) \<Rightarrow>
          remove_tracks get_filename rem
            (if removed then log1
             else log1 @ [py ''Could not find '' @ get_filename i (py ''.wav'') @ py '' to remove''])
            fs1)"

text \<open>
  \<open>sync\<close>. The result is what the function returns or raises, the messages logged and
  the files. Python does not fix the order in which the set \<open>rem\<close> is iterated:
  \<open>order\<close> is that order, a rearrangement of the elements listed as they first occur
  in the ledger.
\<close>

definition sync ::
  "(int \<Rightarrow> pystr \<Rightarrow> pystr) \<Rightarrow> (int list \<Rightarrow> int list) \<Rightarrow> track list \<Rightarrow> kwargs \<Rightarrow> fs \<Rightarrow>
     track list result \<times> pystr list \<times> fs" where
  "sync get_filename order tracks kwargs fs0 =
     (let log0 = [py ''Comparing tracks...'']
      in case kw_sync kwargs of
           None \<Rightarrow> (Raises TypeError, log0, fs0)
         | Some archive \<Rightarrow>
             (case fs0 archive of
                None \<Rightarrow> (Raises OSError, log0, fs0)
              | Some Directory \<Rightarrow> (Raises OSError, log0, fs0)
              | Some (File text) \<Rightarrow>
                  (case those (map py_int
                          (str_split_char
                             (str_strip (concat (readlines (universal_newlines text)))) 10)) of
                     None \<Rightarrow>
                       (Raises (SystemExit 1),
                        log0 @ [py ''Error trying to convert track ids. Verify archive file is not empty.''],
                        fs0)
                   | Some old \<Rightarrow>
                       (let new = map track_id tracks;
                            add = set new - set old;
                            rem = set old - set new
                        in if add = {} \<and> rem = {}
                           then (Raises (SystemExit 0),
                                 log0 @ [py ''No changes found. Exiting...''], fs0)
                           else
                             (case (if rem \<noteq> {}
                                    then (case remove_tracks get_filename
                                                 (order (remdups (filter (\<lambda>i. i \<in> rem) old)))
                                                 log0 fs0 of
                                            (Some e, log1, fs1) \<Rightarrow> (Some e, log1, fs1)
                                          | (None, log1, fs1) \<Rightarrow>
                                              (case fs1 archive of
                                                 Some Directory \<Rightarrow> (Some OSError, log1, fs1)
                                               | _ \<Rightarrow>
                                                   (None, log1,
                                                    fs1(archive \<mapsto> File (concat
                                                      (map (\<lambda>i. py_str i @ [10])
                                                         (filter (\<lambda>i. i \<notin> rem) old)))))))
                                    else (None, log0 @ [py ''No tracks to remove.''], fs0)) of
                                (Some e, log1, fs1) \<Rightarrow> (Raises e, log1, fs1)
                              | (None, log1, fs1) \<Rightarrow>
                                  if add \<noteq> {}
                                  then (Returns (filter (\<lambda>track. track_id track \<in> add) tracks),
                                        log1, fs1)
                                  else (Raises (SystemExit 0),
                                        log1 @ [py ''No tracks to download. Exiting...''],
                                        fs1))))))"

text \<open>A naming function and playlist tracks for the examples.\<close>

definition example_filename :: "int \<Rightarrow> pystr \<Rightarrow> pystr" where
  "example_filename i ext = py ''track'' @ py_str i @ ext"

definition track_numbered :: "int \<Rightarrow> track" where
  "track_numbered i = example_track\<lparr>track_id := i\<rparr>"

section \<open>Metadata: artwork and artist\<close>

text \<open>\<open>s.replace(old, new)\<close> for a non-empty \<open>old\<close>.\<close>

fun str_replace :: "pystr \<Rightarrow> pystr \<Rightarrow> pystr \<Rightarrow> pystr" where
  "str_replace [] old new = []"
| "str_replace (ch # s) old new =
     (if str_startswith (ch # s) old
      then new @ str_replace (drop (length old - 1) s) old new
      else ch # str_replace s old new)"

text \<open>
  \<open>s.lower()\<close> on the ASCII letters. No code point outside ASCII lower-cases to a
  letter of the three content types compared below, so the comparison is Python's.
\<close>

definition str_lower :: "pystr \<Rightarrow> pystr" where
  "str_lower s = map (\<lambda>ch. if 65 \<le> ch \<and> ch \<le> 90 then ch + 32 else ch) s"

text \<open>
  What \<open>requests.get\<close> gives for a URL is a parameter \<open>get\<close>: a response with its
  status, its \<open>Content-Type\<close> header if any and its body, or an exception.
\<close>

record http_response =
  status_code :: int
  content_type :: "pystr option"
  body :: "byte list"

text \<open>\<open>_try_get_artwork\<close>: the result, and the URL it requested.\<close>

definition try_get_artwork ::
  "(pystr \<Rightarrow> http_response result) \<Rightarrow> pystr \<Rightarrow> pystr \<Rightarrow> http_response option result \<times> pystr list" where
  "try_get_artwork get url size' =
     (let new_artwork_url = str_replace url (py ''large'') size'
      in ((case get new_artwork_url of
             Raises e \<Rightarrow> (case e of RequestException \<Rightarrow> Returns None | _ \<Rightarrow> Raises e)
           | Returns artwork_response \<Rightarrow>
               if status_code artwork_response \<noteq> 200 then Returns None
               else if str_lower (case content_type artwork_response of
                                    None \<Rightarrow> []
                                  | Some header \<Rightarrow> header)
                         \<notin> set (map py [''image/png'', ''image/jpeg'', ''image/jpg''])
               then Returns None
               else Returns (Some artwork_response)),
          [new_artwork_url]))"

text \<open>
  The separators of the artist extraction: a dash between two spaces, for the hyphen
  and the dashes U+2212, U+2013, U+2014 and U+2015.
\<close>

definition dashes :: "pystr list" where
  "dashes = [[32, 45, 32], [32, 0x2212, 32], [32, 0x2013, 32], [32, 0x2014, 32],
             [32, 0x2015, 32]]"

text \<open>
  The loop \<open>for dash in {...}\<close>, over the separators in the order the set yields
  them, with \<open>artist\<close> and \<open>track.title\<close> as its state.
\<close>

fun extract_artist :: "pystr list \<Rightarrow> pystr \<Rightarrow> pystr \<Rightarrow> pystr \<times> pystr" where
  "extract_artist [] artist title = (artist, title)"
| "extract_artist (dash # rest) artist title =
     (if \<not> str_contains title dash then extract_artist rest artist title
      else (let artist_title = str_split1 title dash
            in (str_strip (artist_title ! 0), str_strip (artist_title ! 1))))"

text \<open>The fields of \<open>MetadataInfo\<close> that the claims are about.\<close>

record metadata_info =
  md_artist :: pystr
  md_title :: pystr
  md_artwork_jpeg :: "byte list option"

text \<open>
  \<open>_add_metadata_to_stream\<close> up to the \<open>MetadataInfo\<close> it hands to the tagging
  library: the metadata and the track with its title as left by the extraction, and the
  artwork URLs requested. \<open>dash_order\<close> is the iteration order of the set of
  separators.
\<close>

definition add_metadata_to_stream ::
  "(pystr \<Rightarrow> http_response result) \<Rightarrow> pystr list \<Rightarrow> track \<Rightarrow> kwargs \<Rightarrow>
     (metadata_info \<times> track) result \<times> pystr list" where
  "add_metadata_to_stream get dash_order track kwargs =
     (let artwork_base_url = (case track_artwork_url track of
                                None \<Rightarrow> track_avatar_url track
                              | Some url \<Rightarrow> if url = [] then track_avatar_url track else url)
      in case (if kw_original_art kwargs
               then try_get_artwork get artwork_base_url (py ''original'')
               else (Returns None, [])) of
           (Raises e, urls1) \<Rightarrow> (Raises e, urls1)
         | (Returns response1, urls1) \<Rightarrow>
             (case (if response1 = None
                    then try_get_artwork get artwork_base_url (py ''t500x500'')
                    else (Returns response1, [])) of
                (Raises e, urls2) \<Rightarrow> (Raises e, urls1 @ urls2)
              | (Returns artwork_response, urls2) \<Rightarrow>
                  (case (if kw_extract_artist kwargs
                         then extract_artist dash_order (track_username track) (track_title track)
                         else (track_username track, track_title track)) of
                     (artist, title) \<Rightarrow>
                       (Returns (\<lparr>md_artist = artist, md_title = title,
                                  md_artwork_jpeg = map_option body artwork_response\<rparr>,
                                 track\<lparr>track_title := title\<rparr>),
                        urls1 @ urls2))))"

text \<open>A catalog track with a title of the form artist, separator, song.\<close>

definition titled_track :: "pystr \<Rightarrow> track" where
  "titled_track title = example_track\<lparr>track_title := title, track_username := py ''uploader''\<rparr>"

text \<open>
  Servers for the examples: one that has no original artwork and a JPEG at 500x500,
  one that answers every request with status 200 and the content type \<open>image/jpg\<close>, and
  one that cannot be reached.
\<close>

definition example_get :: "pystr \<Rightarrow> http_response result" where
  "example_get url =
     (if url = py ''https://i1.sndcdn.com/avatars-original.jpg''
      then Returns \<lparr>status_code = 404, content_type = Some (py ''text/html''), body = []\<rparr>
      else if url = py ''https://i1.sndcdn.com/avatars-t500x500.jpg''
      then Returns \<lparr>status_code = 200, content_type = Some (py ''image/jpeg''), body = [9]\<rparr>
      else Raises RequestException)"

definition jpg_get :: "pystr \<Rightarrow> http_response result" where
  "jpg_get url = Returns \<lparr>status_code = 200, content_type = Some (py ''image/jpg''), body = [1]\<rparr>"

definition unreachable_get :: "pystr \<Rightarrow> http_response result" where
  "unreachable_get url = Raises RequestException"

section \<open>Concrete values used in the examples\<close>

lemma py_int_5: "py_int (py ''5'') = Some 5"
  by (simp add: py_int_def py_def int_space_def isspace_def int_unsigned_def isdigit_def)

lemma aac_not_in_mp3: "\<not> str_contains (py ''mp3_0_1'') (py ''aac'')"
  by (simp add: str_contains_def py_def str_startswith_def)

section \<open>The receiving loop\<close>

lemma receive_loop_exn:
  "fst (receive_loop chunks received pipe) = None \<or>
   fst (receive_loop chunks received pipe) = Some ValueError"
  by (induction chunks arbitrary: received pipe) auto

lemma receive_loop_delivered:
  assumes "\<forall>chunk\<in>set chunks. length chunk \<le> chunk_size"
  shows "\<exists>rest pipe1. receive_loop chunks received pipe =
           (None, received + int (length (concat (takeWhile (\<lambda>chunk. chunk \<noteq> []) chunks))),
            rest, pipe1) \<and>
         written pipe1 = written pipe @ concat (takeWhile (\<lambda>chunk. chunk \<noteq> []) chunks) \<and>
         closed pipe1 = closed pipe \<and> is_BytesIO pipe1 = is_BytesIO pipe"
  using assms
proof (induction chunks arbitrary: received pipe)
  case Nil
  then show ?case by simp
next
  case (Cons chunk chunks)
  show ?case
  proof (cases "chunk = []")
    case True
    then show ?thesis by simp
  next
    case False
    from Cons.prems have le: "length chunk \<le> chunk_size"
      and rest: "\<forall>c\<in>set chunks. length c \<le> chunk_size"
      by simp_all
    from Cons.IH [OF rest, of "received + int (length chunk)" "pipe_write pipe chunk"]
    show ?thesis using False le by (auto simp: pipe_write_def)
  qed
qed

section \<open>Size bounds\<close>

text \<open>
  C3, as the code has it. With a declared length \<open>L\<close> (the \<open>content-length\<close> header
  of a streamed response, or the size estimated for a transcoding), a lower bound that
  is 0 when \<open>--min-size\<close> is absent and an upper bound that is absent when
  \<open>--max-size\<close> is absent or 0: the check passes if and only if \<open>min \<le> L\<close> and
  \<open>L \<le> max\<close> for a present, non-zero \<open>max\<close>. Otherwise it raises the
  \<open>SoundCloudException\<close> "File not within --min-size and --max-size bounds" before
  anything is read from the stream, written to the sink or requested from the network:
  the stream and the sink come back unchanged, and \<open>fetch\<close> does not decide the result.
\<close>

theorem size_check_bounds:
  "(content_length response = Some header \<and> py_int header = Some L \<longrightarrow>
      (if (case kw_min_size kwargs of None \<Rightarrow> 0 | Some v \<Rightarrow> v) \<le> L \<and>
          (case kw_max_size kwargs of None \<Rightarrow> True | Some m \<Rightarrow> m = 0 \<or> L \<le> m)
       then fst (write_streaming_response_to_pipe response pipe kwargs)
              \<noteq> Raises (SoundCloudException bounds_message)
       else write_streaming_response_to_pipe response pipe kwargs
              = (Raises (SoundCloudException bounds_message), raw response, pipe))) \<and>
   (let total_bytes = (if str_contains (t_preset t) (py ''aac'') then 32 else 16) * t_duration t in
      get_transcoding_m3u8 fetch t kwargs =
      (if (case kw_min_size kwargs of None \<Rightarrow> 0 | Some v \<Rightarrow> v) \<le> total_bytes \<and>
          (case kw_max_size kwargs of None \<Rightarrow> True | Some m \<Rightarrow> m = 0 \<or> total_bytes \<le> m)
       then (case t_url t of
               None \<Rightarrow> Returns None
             | Some url \<Rightarrow>
                 (case fetch url of Raises e \<Rightarrow> Raises e | Returns u \<Rightarrow> Returns (Some u)))
       else Raises (SoundCloudException bounds_message)))"
proof (intro conjI impI)
  assume h: "content_length response = Some header \<and> py_int header = Some L"
  have "fst (receive_loop (raw response) 0 pipe) = None \<or>
        fst (receive_loop (raw response) 0 pipe) = Some ValueError"
    by (rule receive_loop_exn)
  then show "if (case kw_min_size kwargs of None \<Rightarrow> 0 | Some v \<Rightarrow> v) \<le> L \<and>
          (case kw_max_size kwargs of None \<Rightarrow> True | Some m \<Rightarrow> m = 0 \<or> L \<le> m)
       then fst (write_streaming_response_to_pipe response pipe kwargs)
              \<noteq> Raises (SoundCloudException bounds_message)
       else write_streaming_response_to_pipe response pipe kwargs
              = (Raises (SoundCloudException bounds_message), raw response, pipe)"
    using h
    by (auto simp: write_streaming_response_to_pipe_def Let_def split: option.splits prod.splits)
next
  show "let total_bytes = (if str_contains (t_preset t) (py ''aac'') then 32 else 16) * t_duration t in
      get_transcoding_m3u8 fetch t kwargs =
      (if (case kw_min_size kwargs of None \<Rightarrow> 0 | Some v \<Rightarrow> v) \<le> total_bytes \<and>
          (case kw_max_size kwargs of None \<Rightarrow> True | Some m \<Rightarrow> m = 0 \<or> total_bytes \<le> m)
       then (case t_url t of
               None \<Rightarrow> Returns None
             | Some url \<Rightarrow>
                 (case fetch url of Raises e \<Rightarrow> Raises e | Returns u \<Rightarrow> Returns (Some u)))
       else Raises (SoundCloudException bounds_message))"
    by (auto simp: get_transcoding_m3u8_def Let_def split: option.splits)
qed

text \<open>
  The theorem at a 5-byte response: accepted under the bounds 1 and 10, rejected with
  nothing read under the bounds 6 and 10; and a 1000 ms mp3 transcoding (16000 bytes)
  rejected under the bounds 1 and 10.
\<close>

theorem size_check_bounds_witness:
  "fst (write_streaming_response_to_pipe
          \<lparr>content_length = Some (py ''5''), raw = [[1, 2, 3, 4, 5]]\<rparr> new_BytesIO
          (no_options\<lparr>kw_min_size := Some 1, kw_max_size := Some 10\<rparr>))
     \<noteq> Raises (SoundCloudException bounds_message) \<and>
   write_streaming_response_to_pipe
          \<lparr>content_length = Some (py ''5''), raw = [[1, 2, 3, 4, 5]]\<rparr> new_BytesIO
          (no_options\<lparr>kw_min_size := Some 6, kw_max_size := Some 10\<rparr>)
     = (Raises (SoundCloudException bounds_message), [[1, 2, 3, 4, 5]], new_BytesIO) \<and>
   get_transcoding_m3u8 Returns \<lparr>t_url = None, t_preset = py ''mp3_0_1'', t_duration = 1000\<rparr>
          (no_options\<lparr>kw_min_size := Some 1, kw_max_size := Some 10\<rparr>)
     = Raises (SoundCloudException bounds_message)"
  using size_check_bounds [where response = "\<lparr>content_length = Some (py ''5''), raw = [[1, 2, 3, 4, 5]]\<rparr>"
      and header = "py ''5''" and L = 5 and pipe = new_BytesIO
      and kwargs = "no_options\<lparr>kw_min_size := Some 1, kw_max_size := Some 10\<rparr>"
      and t = "\<lparr>t_url = None, t_preset = py ''mp3_0_1'', t_duration = 1000\<rparr>" and fetch = Returns]
    size_check_bounds [where response = "\<lparr>content_length = Some (py ''5''), raw = [[1, 2, 3, 4, 5]]\<rparr>"
      and header = "py ''5''" and L = 5 and pipe = new_BytesIO
      and kwargs = "no_options\<lparr>kw_min_size := Some 6, kw_max_size := Some 10\<rparr>"
      and t = "\<lparr>t_url = None, t_preset = py ''mp3_0_1'', t_duration = 1000\<rparr>" and fetch = Returns]
  by (simp add: py_int_5 aac_not_in_mp3 no_options_def)

text \<open>
  C3 as the specification words it fails for \<open>--max-size 0\<close>: the bound is present,
  \<open>0 \<le> 5 \<le> 0\<close> is false, and yet the 5-byte response is accepted and copied (the
  source: "max size of 0 treated as no max size").
\<close>

theorem size_check_zero_max_counterexample:
  "write_streaming_response_to_pipe
     \<lparr>content_length = Some (py ''5''), raw = [[1, 2, 3, 4, 5]]\<rparr> new_BytesIO
     (no_options\<lparr>kw_max_size := Some 0\<rparr>)
   = (Returns (), [],
      \<lparr>written = [1, 2, 3, 4, 5], flushed = True, closed = False, is_BytesIO = True\<rparr>) \<and>
   \<not> ((0::int) \<le> 5 \<and> (5::int) \<le> 0)"
  by (simp add: write_streaming_response_to_pipe_def py_int_5 no_options_def new_BytesIO_def
      chunk_size_def pipe_write_def)

section \<open>The transcoding process\<close>

lemma floor_numeral_divide: "\<lfloor>(numeral a :: rat) / numeral b\<rfloor> = numeral a div numeral b"
  using floor_divide_of_int_eq [of "numeral a" "numeral b", where ?'a = rat] by simp

lemmas eval_defs = py_def is_ffmpeg_progress_line_def str_split1_def str_startswith_def
  py_int_def int_space_def isspace_def int_unsigned_def isdigit_def py_str_def str_nat.simps
  is_unsupported_codec_for_streaming_def read_stdout_def new_BytesIO_def Let_def
  round64_def rne_def pow2_def float_exponent.simps max_float_def floor_numeral_divide

text \<open>Rounding keeps the sign: what is not negative is not rounded below 0.\<close>

lemma pow2_pos: "0 < pow2 e"
  by (simp add: pow2_def)

lemma rne_nonneg: "0 \<le> x \<Longrightarrow> 0 \<le> rne x"
  by (auto simp: rne_def Let_def)

lemma round64_nonneg: "0 \<le> x \<Longrightarrow> 0 \<le> round64 x"
proof -
  assume x: "0 \<le> x"
  have m: "0 \<le> max_float" by (simp add: max_float_def)
  have "0 \<le> of_int (rne (\<bar>x\<bar> / pow2 e)) * pow2 e" for e
    using rne_nonneg [of "\<bar>x\<bar> / pow2 e"] pow2_pos [of e] by (simp add: less_imp_le)
  then show ?thesis using x m by (auto simp: round64_def Let_def)
qed

lemma round64_minus: "round64 (- x) = - round64 x"
  by (simp add: round64_def Let_def)

lemma round64_nonpos: "x \<le> 0 \<Longrightarrow> round64 x \<le> 0"
  using round64_nonneg [of "- x"] by (simp add: round64_minus)

text \<open>
  The exponent search is sound, a number of at least the smallest subnormal is not
  rounded to 0, and the difference of two floats is negative, zero or positive as the
  exact difference is.
\<close>

lemma pow2_powi: "pow2 e = 2 powi e"
  by (simp add: pow2_def power_int_def field_simps)

lemma pow2_add: "pow2 (a + b) = pow2 a * pow2 b"
  by (simp add: pow2_powi power_int_add)

lemma pow2_mono: "a \<le> b \<Longrightarrow> pow2 a \<le> pow2 b"
  by (simp add: pow2_powi power_int_increasing)

lemma pow2_1: "pow2 1 = 2"
  by (simp add: pow2_def)

lemma pow2_m1: "pow2 (- 1) = 1 / 2"
  by (simp add: pow2_def)

lemma round64_cases:
  fixes x :: rat
  defines "e \<equiv> max (float_exponent 2200 \<bar>x\<bar>) (- 1022)"
  defines "m \<equiv> rne (\<bar>x\<bar> / pow2 (e - 52))"
  defines "r \<equiv> (if 1024 \<le> e \<or> (e = 1023 \<and> 2 ^ 53 \<le> m) then max_float
                 else of_int m * pow2 (e - 52))"
  assumes "x \<noteq> 0"
  shows "round64 x = (if x < 0 then - r else r)"
  unfolding round64_def Let_def r_def m_def e_def using assms by (simp only: if_False)

lemma float_exponent_sound:
  "0 < a \<Longrightarrow> pow2 (float_exponent fuel a) \<le> a \<or> float_exponent fuel a = - int fuel"
proof (induction fuel a rule: float_exponent.induct)
  case (1 fuel x)
  show ?case
  proof (cases "fuel = 0")
    case True
    then show ?thesis by (simp add: float_exponent.simps [of 0 x])
  next
    case f: False
    show ?thesis
    proof (cases "2 \<le> x")
      case True
      have e: "float_exponent fuel x = float_exponent (fuel - 1) (x / 2) + 1"
        using f True by (simp add: float_exponent.simps [of fuel x])
      from 1(1) [OF f True] 1(3)
      have "pow2 (float_exponent (fuel - 1) (x / 2)) \<le> x / 2 \<or>
            float_exponent (fuel - 1) (x / 2) = - int (fuel - 1)" by simp
      then show ?thesis
      proof
        assume "pow2 (float_exponent (fuel - 1) (x / 2)) \<le> x / 2"
        then have "pow2 (float_exponent (fuel - 1) (x / 2)) * pow2 1 \<le> x"
          by (simp add: pow2_1)
        then show ?thesis unfolding e pow2_add by (rule disjI1)
      next
        assume a: "float_exponent (fuel - 1) (x / 2) = - int (fuel - 1)"
        have "pow2 (- int (fuel - 1) + 1) \<le> pow2 1"
          by (rule pow2_mono) simp
        then have "pow2 (- int (fuel - 1) + 1) \<le> x" using True by (simp add: pow2_1)
        then show ?thesis unfolding e a by (rule disjI1)
      qed
    next
      case n2: False
      show ?thesis
      proof (cases "x < 1")
        case True
        have e: "float_exponent fuel x = float_exponent (fuel - 1) (x * 2) - 1"
          using f n2 True by (simp add: float_exponent.simps [of fuel x])
        from 1(2) [OF f n2 True] 1(3)
        have "pow2 (float_exponent (fuel - 1) (x * 2)) \<le> x * 2 \<or>
              float_exponent (fuel - 1) (x * 2) = - int (fuel - 1)" by simp
        then show ?thesis
        proof
          assume "pow2 (float_exponent (fuel - 1) (x * 2)) \<le> x * 2"
          moreover have "pow2 (float_exponent (fuel - 1) (x * 2) - 1) =
                         pow2 (float_exponent (fuel - 1) (x * 2)) * pow2 (- 1)"
            using pow2_add [of "float_exponent (fuel - 1) (x * 2)" "- 1"] by simp
          ultimately have "pow2 (float_exponent (fuel - 1) (x * 2) - 1) \<le> x"
            by (simp add: pow2_m1)
          then show ?thesis unfolding e by (rule disjI1)
        next
          assume "float_exponent (fuel - 1) (x * 2) = - int (fuel - 1)"
          then show ?thesis unfolding e using f by simp
        qed
      next
        case False
        then show ?thesis using f n2 by (simp add: float_exponent.simps [of fuel x] pow2_def)
      qed
    qed
  qed
qed

lemma rne_ge_1: "1 \<le> x \<Longrightarrow> 1 \<le> rne x"
proof -
  assume "1 \<le> x"
  then have "1 \<le> \<lfloor>x\<rfloor>" by simp
  then show ?thesis by (auto simp: rne_def Let_def)
qed

lemma round64_nonzero:
  assumes "pow2 (- 1074) \<le> \<bar>x\<bar>"
  shows "round64 x \<noteq> 0"
proof -
  have x: "x \<noteq> 0" using assms pow2_pos [of "- 1074"] by auto
  define e where "e = max (float_exponent 2200 \<bar>x\<bar>) (- 1022)"
  define m where "m = rne (\<bar>x\<bar> / pow2 (e - 52))"
  have le: "pow2 (e - 52) \<le> \<bar>x\<bar>"
  proof (cases "float_exponent 2200 \<bar>x\<bar> \<le> - 1022")
    case True
    then have "e = - 1022" by (simp add: e_def)
    then show ?thesis using assms by simp
  next
    case False
    then have e: "e = float_exponent 2200 \<bar>x\<bar>" by (simp add: e_def)
    from float_exponent_sound [of "\<bar>x\<bar>" 2200] x False
    have "pow2 e \<le> \<bar>x\<bar>" unfolding e by auto
    moreover have "pow2 (e - 52) \<le> pow2 e" by (rule pow2_mono) simp
    ultimately show ?thesis by simp
  qed
  then have "1 \<le> \<bar>x\<bar> / pow2 (e - 52)"
    using pow2_pos [of "e - 52"] by (simp add: le_divide_eq)
  then have "1 \<le> m" unfolding m_def by (rule rne_ge_1)
  then have "0 < rat_of_int m * pow2 (e - 52)"
    using pow2_pos [of "e - 52"] by simp
  moreover have "0 < max_float" by (simp add: max_float_def)
  ultimately have "0 < (if 1024 \<le> e \<or> (e = 1023 \<and> 2 ^ 53 \<le> m) then max_float
                       else of_int m * pow2 (e - 52))"
    by simp
  then show ?thesis
    unfolding round64_cases [OF x] e_def m_def by (cases "x < 0") simp_all
qed

text \<open>Every float is a multiple of the smallest subnormal number.\<close>

lemma round64_on_grid: "\<exists>k::int. round64 x = of_int k * pow2 (- 1074)"
proof -
  define e where "e = max (float_exponent 2200 \<bar>x\<bar>) (- 1022)"
  define m where "m = rne (\<bar>x\<bar> / pow2 (e - 52))"
  have e: "- 1022 \<le> e" by (simp add: e_def)
  have "pow2 (e - 52) = pow2 (e + 1022) * pow2 (- 1074)"
    using pow2_add [of "e + 1022" "- 1074"] by simp
  also have "pow2 (e + 1022) = of_int (2 ^ nat (e + 1022))"
    using e by (simp add: pow2_def)
  finally have p: "rat_of_int m * pow2 (e - 52) = of_int (m * 2 ^ nat (e + 1022)) * pow2 (- 1074)"
    by simp
  have "(2::rat) ^ 971 = pow2 971" by (simp add: pow2_def)
  also have "\<dots> = pow2 2045 * pow2 (- 1074)"
    using pow2_add [of 2045 "- 1074"] by simp
  also have "pow2 2045 = of_int (2 ^ nat 2045)" by (simp add: pow2_def)
  finally have "max_float = of_int ((2 ^ 53 - 1) * 2 ^ nat 2045) * pow2 (- 1074)"
    by (simp add: max_float_def)
  then obtain k :: int where k: "max_float = of_int k * pow2 (- 1074)" by blast
  have "\<exists>r::int. (if 1024 \<le> e \<or> (e = 1023 \<and> 2 ^ 53 \<le> m) then max_float
                  else of_int m * pow2 (e - 52)) = of_int r * pow2 (- 1074)"
  proof (cases "1024 \<le> e \<or> (e = 1023 \<and> 2 ^ 53 \<le> m)")
    case True
    then show ?thesis using k by (simp only: if_True) blast
  next
    case False
    then show ?thesis using p by (simp only: if_False) blast
  qed
  then obtain r :: int where r: "(if 1024 \<le> e \<or> (e = 1023 \<and> 2 ^ 53 \<le> m) then max_float
                  else of_int m * pow2 (e - 52)) = of_int r * pow2 (- 1074)"
    by blast
  show ?thesis
  proof (cases "x = 0")
    case True
    then have "round64 x = of_int 0 * pow2 (- 1074)" by (simp add: round64_def)
    then show ?thesis by blast
  next
    case False
    note r' = r [unfolded m_def e_def]
    have c: "round64 x =
               (if x < 0 then - (of_int r * pow2 (- 1074)) else of_int r * pow2 (- 1074))"
      unfolding round64_cases [OF False] r' ..
    show ?thesis
    proof (cases "x < 0")
      case True
      then have "round64 x = of_int (- r) * pow2 (- 1074)" unfolding c by simp
      then show ?thesis by blast
    next
      case False
      then have "round64 x = of_int r * pow2 (- 1074)" unfolding c by simp
      then show ?thesis by blast
    qed
  qed
qed

lemma round64_difference_sign:
  assumes "\<exists>k::int. a = of_int k * pow2 (- 1074)" and "\<exists>k::int. b = of_int k * pow2 (- 1074)"
  shows "(round64 (a - b) < 0 \<longleftrightarrow> a < b) \<and> (0 < round64 (a - b) \<longleftrightarrow> b < a)"
proof -
  from assms obtain k l :: int where a: "a = of_int k * pow2 (- 1074)"
    and b: "b = of_int l * pow2 (- 1074)" by blast
  have d: "a - b = of_int (k - l) * pow2 (- 1074)"
    by (simp add: a b algebra_simps)
  have nz: "round64 (a - b) \<noteq> 0" if "a \<noteq> b"
  proof -
    from that have "k \<noteq> l" using a b by auto
    then have "1 \<le> \<bar>k - l\<bar>" by arith
    then have "1 \<le> rat_of_int \<bar>k - l\<bar>" by simp
    then have "1 \<le> \<bar>rat_of_int (k - l)\<bar>" by simp
    then have "1 * pow2 (- 1074) \<le> \<bar>rat_of_int (k - l)\<bar> * pow2 (- 1074)"
      using pow2_pos [of "- 1074"] by (intro mult_right_mono) simp_all
    also have "\<dots> = \<bar>a - b\<bar>"
      unfolding d using pow2_pos [of "- 1074"] by (simp add: abs_mult)
    finally have "pow2 (- 1074) \<le> \<bar>a - b\<bar>" by simp
    then show ?thesis by (rule round64_nonzero)
  qed
  have neg: "round64 (a - b) < 0 \<longleftrightarrow> a < b"
  proof
    assume "round64 (a - b) < 0"
    then have "\<not> 0 \<le> a - b" using round64_nonneg [of "a - b"] by auto
    then show "a < b" by simp
  next
    assume "a < b"
    then have "round64 (a - b) \<le> 0" "round64 (a - b) \<noteq> 0"
      using round64_nonpos [of "a - b"] nz by auto
    then show "round64 (a - b) < 0" by simp
  qed
  have pos: "0 < round64 (a - b) \<longleftrightarrow> b < a"
  proof
    assume "0 < round64 (a - b)"
    then have "\<not> a - b \<le> 0" using round64_nonpos [of "a - b"] by auto
    then show "b < a" by simp
  next
    assume "b < a"
    then have "0 \<le> round64 (a - b)" "round64 (a - b) \<noteq> 0"
      using round64_nonneg [of "a - b"] nz by auto
    then show "0 < round64 (a - b)" by simp
  qed
  show ?thesis using neg pos by (rule conjI)
qed

lemma read_progress_errors:
  "fst (read_progress total_sec lines errors_output last_secs updates) =
     errors_output @
     concat (filter (\<lambda>line. \<not> is_ffmpeg_progress_line (str_split1 line (py ''='')))
               (takeWhile (\<lambda>line. line \<noteq> []) lines))"
  by (induction lines arbitrary: errors_output last_secs updates) (auto simp: Let_def)

text \<open>
  The values given to \<open>progress.update\<close> are the rounded differences between the
  successive clamped positions of the \<open>out_time_ms\<close> lines.
\<close>

lemma read_progress_positions:
  fixes total_sec :: rat
  defines "position \<equiv> \<lambda>line.
      min (case py_int (str_split1 line (py ''='') ! 1) of
             None \<Rightarrow> 0 | Some v \<Rightarrow> round64 (rat_of_int v / 1000000)) total_sec"
    and "timed \<equiv> \<lambda>lines. filter (\<lambda>line. is_ffmpeg_progress_line (str_split1 line (py ''='')) \<and>
                              str_startswith line (py ''out_time_ms''))
                     (takeWhile (\<lambda>line. line \<noteq> []) lines)"
  shows "snd (snd (read_progress total_sec lines errors_output last_secs updates)) =
           updates @ map (\<lambda>(seconds, previous). round64 (seconds - previous))
                       (zip (map position (timed lines)) (last_secs # map position (timed lines)))"
proof (induction lines arbitrary: errors_output last_secs updates)
  case Nil
  show ?case by (simp add: timed_def)
next
  case (Cons line lines)
  let ?R = "read_progress total_sec (line # lines) errors_output last_secs updates"
  consider (eof) "line = []"
    | (diag) "line \<noteq> []" "\<not> is_ffmpeg_progress_line (str_split1 line (py ''=''))"
    | (other) "line \<noteq> []" "is_ffmpeg_progress_line (str_split1 line (py ''=''))"
        "\<not> str_startswith line (py ''out_time_ms'')"
    | (time) "line \<noteq> []" "is_ffmpeg_progress_line (str_split1 line (py ''=''))"
        "str_startswith line (py ''out_time_ms'')"
    by blast
  then show ?case
  proof cases
    case eof
    then show ?thesis by (simp add: timed_def)
  next
    case diag
    then have "?R = read_progress total_sec lines (errors_output @ line) last_secs updates"
      and "timed (line # lines) = timed lines"
      by (simp_all add: timed_def)
    then show ?thesis using Cons.IH [of "errors_output @ line" last_secs updates] by simp
  next
    case other
    then have "?R = read_progress total_sec lines errors_output last_secs updates"
      and "timed (line # lines) = timed lines"
      by (simp_all add: timed_def)
    then show ?thesis using Cons.IH [of errors_output last_secs updates] by simp
  next
    case time
    then have R: "?R = read_progress total_sec lines errors_output (position line)
                         (updates @ [round64 (position line - last_secs)])"
      and t: "timed (line # lines) = line # timed lines"
      by (simp_all add: timed_def position_def Let_def)
    show ?thesis
      unfolding R t
      using Cons.IH [of errors_output "position line" "updates @ [round64 (position line - last_secs)]"]
      by simp
  qed
qed

text \<open>
  C6. When the engine exits with a non-zero code, \<open>_re_encode_ffmpeg\<close> raises the
  \<open>SoundCloudException\<close> whose message is \<open>FFmpeg error(<code>): \<close> followed by
  exactly the diagnostic lines that are not progress lines, verbatim and in order; no
  buffer is returned. When the code is zero, no \<open>SoundCloudException\<close> is raised.
\<close>

theorem nonzero_exit_raises:
  "(returncode pipe \<noteq> 0 \<longrightarrow>
      fst (re_encode_ffmpeg pipe out_codec track_duration_ms) =
        Raises (SoundCloudException
          (py ''FFmpeg error('' @ py_str (returncode pipe) @ py ''): '' @
           concat (filter (\<lambda>line. \<not> is_ffmpeg_progress_line (str_split1 line (py ''='')))
                     (takeWhile (\<lambda>line. line \<noteq> []) (stderr_lines pipe)))))) \<and>
   (returncode pipe = 0 \<longrightarrow>
      (\<forall>text. fst (re_encode_ffmpeg pipe out_codec track_duration_ms)
                \<noteq> Raises (SoundCloudException text)))"
proof -
  obtain errors_output last_secs updates where
    rp: "read_progress (round64 (rat_of_int track_duration_ms / 1000)) (stderr_lines pipe) [] 0 []
           = (errors_output, last_secs, updates)"
    by (metis prod_cases3)
  have "errors_output =
          concat (filter (\<lambda>line. \<not> is_ffmpeg_progress_line (str_split1 line (py ''='')))
                    (takeWhile (\<lambda>line. line \<noteq> []) (stderr_lines pipe)))"
    using read_progress_errors [of "round64 (rat_of_int track_duration_ms / 1000)"
        "stderr_lines pipe" "[]" 0 "[]"]
    by (simp add: rp)
  then show ?thesis
    by (simp add: re_encode_ffmpeg_def Let_def rp split: option.splits)
qed

text \<open>
  The theorem at an engine that prints a progress line, \<open>boom\<close>, another progress line
  and \<open>x=y\<close> and exits with -1; and the same function at an engine that exits with 0.
\<close>

theorem nonzero_exit_raises_witness:
  "fst (re_encode_ffmpeg
          \<lparr>stderr_lines = [py ''out_time_ms=500000\<newline>'', py ''boom\<newline>'',
                           py ''speed=1x\<newline>'', py ''x=y''],
           stdout_chunks = [[1, 2]], returncode = - 1, out_file = None\<rparr> (py ''mp3'') 2000)
     = Raises (SoundCloudException (py ''FFmpeg error(-1): boom\<newline>x=y'')) \<and>
   fst (re_encode_ffmpeg
          \<lparr>stderr_lines = [py ''out_time_ms=500000\<newline>'', py ''boom\<newline>''],
           stdout_chunks = [[1, 2]], returncode = 0, out_file = None\<rparr> (py ''mp3'') 2000)
     = Returns \<lparr>written = [1, 2], flushed = True, closed = False, is_BytesIO = True\<rparr>"
  using nonzero_exit_raises [of
      "\<lparr>stderr_lines = [py ''out_time_ms=500000\<newline>'', py ''boom\<newline>'',
                        py ''speed=1x\<newline>'', py ''x=y''],
        stdout_chunks = [[1, 2]], returncode = - 1, out_file = None\<rparr>" "py ''mp3''" 2000]
  by (simp add: re_encode_ffmpeg_def eval_defs)

text \<open>
  C2, as the code has it. Take the \<open>out_time_ms\<close> progress lines read before the end
  of the diagnostic channel, and for each its position: the value over 1000000 as a
  float (0 for a malformed value), clamped to the duration in seconds. Each value given
  to the progress observer is the float difference between a position and the position
  before it (0 before the first). No position exceeds the duration. Nothing keeps a
  difference from being negative: it is negative exactly when the position goes back,
  and positive exactly when it advances.
\<close>

theorem progress_deltas:
  "(let total_sec = round64 (rat_of_int track_duration_ms / 1000);
        positions =
          map (\<lambda>line. min (case py_int (str_split1 line (py ''='') ! 1) of
                             None \<Rightarrow> 0 | Some v \<Rightarrow> round64 (rat_of_int v / 1000000)) total_sec)
            (filter (\<lambda>line. is_ffmpeg_progress_line (str_split1 line (py ''='')) \<and>
                             str_startswith line (py ''out_time_ms''))
               (takeWhile (\<lambda>line. line \<noteq> []) (stderr_lines pipe)))
    in snd (re_encode_ffmpeg pipe out_codec track_duration_ms) =
         map (\<lambda>(seconds, previous). round64 (seconds - previous)) (zip positions (0 # positions)) \<and>
       (\<forall>seconds\<in>set positions. seconds \<le> total_sec) \<and>
       (\<forall>(seconds, previous)\<in>set (zip positions (0 # positions)).
          (round64 (seconds - previous) < 0 \<longleftrightarrow> seconds < previous) \<and>
          (0 < round64 (seconds - previous) \<longleftrightarrow> previous < seconds)))"
proof -
  let ?total = "round64 (rat_of_int track_duration_ms / 1000)"
  let ?positions =
    "map (\<lambda>line. min (case py_int (str_split1 line (py ''='') ! 1) of
                       None \<Rightarrow> 0 | Some v \<Rightarrow> round64 (rat_of_int v / 1000000)) ?total)
       (filter (\<lambda>line. is_ffmpeg_progress_line (str_split1 line (py ''='')) \<and>
                        str_startswith line (py ''out_time_ms''))
          (takeWhile (\<lambda>line. line \<noteq> []) (stderr_lines pipe)))"
  have u: "snd (re_encode_ffmpeg pipe out_codec track_duration_ms) =
             snd (snd (read_progress ?total (stderr_lines pipe) [] 0 []))"
    by (simp add: re_encode_ffmpeg_def Let_def split: prod.splits option.splits)
  have 1: "snd (re_encode_ffmpeg pipe out_codec track_duration_ms) =
             map (\<lambda>(seconds, previous). round64 (seconds - previous))
               (zip ?positions (0 # ?positions))"
    unfolding u by (simp only: read_progress_positions append_Nil)
  have 2: "\<forall>seconds\<in>set ?positions. seconds \<le> ?total"
    by simp
  have total: "\<exists>k::int. ?total = of_int k * pow2 (- 1074)"
    by (rule round64_on_grid)
  have zero: "\<exists>k::int. (0::rat) = of_int k * pow2 (- 1074)"
    by (rule exI [of _ 0]) simp
  have grid: "\<exists>k::int. p = of_int k * pow2 (- 1074)" if "p \<in> set (0 # ?positions)" for p
  proof (cases "p = 0")
    case True
    then show ?thesis using zero by simp
  next
    case False
    then have "p \<in> set ?positions" using that by simp
    then obtain line where
      p: "p = min (case py_int (str_split1 line (py ''='') ! 1) of
                     None \<Rightarrow> 0 | Some v \<Rightarrow> round64 (rat_of_int v / 1000000)) ?total"
      by auto
    have "\<exists>k::int. (case py_int (str_split1 line (py ''='') ! 1) of
                     None \<Rightarrow> 0 | Some v \<Rightarrow> round64 (rat_of_int v / 1000000))
                  = of_int k * pow2 (- 1074)"
      using zero round64_on_grid by (cases "py_int (str_split1 line (py ''='') ! 1)") simp_all
    then show ?thesis unfolding p min_def using total by (simp only: split: if_split) blast
  qed
  have 3: "\<forall>(seconds, previous)\<in>set (zip ?positions (0 # ?positions)).
          (round64 (seconds - previous) < 0 \<longleftrightarrow> seconds < previous) \<and>
          (0 < round64 (seconds - previous) \<longleftrightarrow> previous < seconds)"
  proof (rule ballI)
    fix x :: "rat \<times> rat"
    assume x: "x \<in> set (zip ?positions (0 # ?positions))"
    obtain a b where ab: "x = (a, b)" by (cases x)
    from x have "a \<in> set ?positions" "b \<in> set (0 # ?positions)"
      unfolding ab by (rule set_zip_leftD, rule set_zip_rightD)
    then have "\<exists>k::int. a = of_int k * pow2 (- 1074)" "\<exists>k::int. b = of_int k * pow2 (- 1074)"
      using grid by simp_all
    then show "case x of (seconds, previous) \<Rightarrow>
          (round64 (seconds - previous) < 0 \<longleftrightarrow> seconds < previous) \<and>
          (0 < round64 (seconds - previous) \<longleftrightarrow> previous < seconds)"
      unfolding ab prod.case by (rule round64_difference_sign)
  qed
  show ?thesis
    unfolding Let_def by (intro conjI 1 2 3)
qed

text \<open>
  The theorem at a 2000 ms track whose engine reports 0.1 s, 0.3 s and 9 s: the
  positions are the floats 0.1 and 0.3 and the duration 2.0, and the observer is given
  the floats 0.1, 0.19999999999999998 and 1.7.
\<close>

theorem progress_deltas_witness:
  "snd (re_encode_ffmpeg
          \<lparr>stderr_lines = [py ''out_time_ms=100000\<newline>'', py ''speed=1x\<newline>'',
                           py ''out_time_ms=300000\<newline>'', py ''out_time_ms=9000000\<newline>''],
           stdout_chunks = [], returncode = 0, out_file = None\<rparr> (py ''mp3'') 2000)
     = [3602879701896397 / 36028797018963968, 7205759403792793 / 36028797018963968,
        7656119366529843 / 4503599627370496] \<and>
   3602879701896397 / 36028797018963968 \<le> (2::rat) \<and>
   5404319552844595 / 18014398509481984 \<le> (2::rat)"
proof -
  let ?pipe = "\<lparr>stderr_lines = [py ''out_time_ms=100000\<newline>'', py ''speed=1x\<newline>'',
                           py ''out_time_ms=300000\<newline>'', py ''out_time_ms=9000000\<newline>''],
           stdout_chunks = [], returncode = 0, out_file = None\<rparr>"
  have total: "round64 (rat_of_int 2000 / 1000) = 2"
    by (simp add: eval_defs)
  have timed: "filter (\<lambda>line. is_ffmpeg_progress_line (str_split1 line (py ''='')) \<and>
                             str_startswith line (py ''out_time_ms''))
               (takeWhile (\<lambda>line. line \<noteq> []) (stderr_lines ?pipe))
     = [py ''out_time_ms=100000\<newline>'', py ''out_time_ms=300000\<newline>'',
        py ''out_time_ms=9000000\<newline>'']"
    by (simp add: eval_defs)
  have positions: "map (\<lambda>line. min (case py_int (str_split1 line (py ''='') ! 1) of
                             None \<Rightarrow> 0 | Some v \<Rightarrow> round64 (rat_of_int v / 1000000)) 2)
       [py ''out_time_ms=100000\<newline>'', py ''out_time_ms=300000\<newline>'',
        py ''out_time_ms=9000000\<newline>'']
     = [3602879701896397 / 36028797018963968, 5404319552844595 / 18014398509481984, 2]"
    by (simp add: eval_defs)
  have deltas: "map (\<lambda>(seconds, previous). round64 (seconds - previous))
       (zip [3602879701896397 / 36028797018963968, 5404319552844595 / 18014398509481984, 2]
          (0 # [3602879701896397 / 36028797018963968, 5404319552844595 / 18014398509481984, 2]))
     = [3602879701896397 / 36028797018963968, 7205759403792793 / 36028797018963968,
        7656119366529843 / 4503599627370496]"
    by (simp add: eval_defs)
  note w = progress_deltas [of 2000 ?pipe "py ''mp3''", unfolded Let_def total timed positions deltas]
  from w [THEN conjunct2, THEN conjunct1]
  have "3602879701896397 / 36028797018963968 \<le> (2::rat) \<and>
        5404319552844595 / 18014398509481984 \<le> (2::rat)"
    by simp
  with w [THEN conjunct1] show ?thesis
    by (rule conjI)
qed

text \<open>
  C2 as the specification words it fails: after \<open>out_time_ms=500000\<close>, the malformed
  line \<open>out_time_ms=N/A\<close> is read as position 0 and the observer is given -0.5.
\<close>

theorem progress_regresses_counterexample:
  "snd (re_encode_ffmpeg
          \<lparr>stderr_lines = [py ''out_time_ms=500000\<newline>'', py ''out_time_ms=N/A\<newline>''],
           stdout_chunks = [], returncode = 0, out_file = None\<rparr> (py ''mp3'') 2000)
     = [1 / 2, - (1 / 2)] \<and> - (1 / 2) < (0::rat)"
  by (simp add: re_encode_ffmpeg_def eval_defs)

text \<open>
  The differences are rounded, so that what the observer adds up need not be the
  position: for a track of 167670 ms whose engine reports 27.727232 s and then
  167.670001 s, the two values given to the observer add up, as floats, to
  167.67000000000002, above the duration 167.67.
\<close>

lemma progress_sum_rounding:
  "snd (re_encode_ffmpeg
          \<lparr>stderr_lines = [py ''out_time_ms=27727232\<newline>'', py ''out_time_ms=167670001\<newline>''],
           stdout_chunks = [], returncode = 0, out_file = None\<rparr> (py ''mp3'') 167670)
     = [1951130495362739 / 70368744177664, 1230949605113273 / 8796093022208] \<and>
   round64 (rat_of_int 167670 / 1000)
     < round64 (1951130495362739 / 70368744177664 + 1230949605113273 / 8796093022208)"
  by (simp add: re_encode_ffmpeg_def eval_defs)

section \<open>The stream copy\<close>

text \<open>
  C1, as the code has it. For a response whose declared length \<open>N\<close> passes the size
  check and whose chunks fit the buffer (no \<open>read(8192)\<close> gives more than 8192 bytes),
  the copy writes the delivered bytes to the sink in the order received and flushes it.
  If exactly \<open>N\<close> bytes were delivered it returns, having closed the sink unless it is
  an \<open>io.BytesIO\<close>. If the count differs from \<open>N\<close> it calls \<open>sys.exit(1)\<close>: no
  result is returned, the sink stays open, and the stream is not read again.
\<close>

theorem stream_copy_outcome:
  assumes "content_length response = Some header" and "py_int header = Some N"
    and "(case kw_min_size kwargs of None \<Rightarrow> 0 | Some v \<Rightarrow> v) \<le> N"
    and "(case kw_max_size kwargs of None \<Rightarrow> True | Some m \<Rightarrow> m = 0 \<or> N \<le> m)"
    and "\<forall>chunk\<in>set (raw response). length chunk \<le> chunk_size"
    and "delivered = concat (takeWhile (\<lambda>chunk. chunk \<noteq> []) (raw response))"
  shows "\<exists>rest pipe1.
           write_streaming_response_to_pipe response pipe kwargs =
             ((if int (length delivered) = N then Returns () else Raises (SystemExit 1)),
              rest, pipe1) \<and>
           written pipe1 = written pipe @ delivered \<and> flushed pipe1 \<and>
           is_BytesIO pipe1 = is_BytesIO pipe \<and>
           closed pipe1 = (closed pipe \<or> (int (length delivered) = N \<and> \<not> is_BytesIO pipe))"
proof -
  from receive_loop_delivered [OF assms(5), of 0 pipe] obtain rest pipe0 where
    loop: "receive_loop (raw response) 0 pipe = (None, int (length delivered), rest, pipe0)"
    and p0: "written pipe0 = written pipe @ delivered" "closed pipe0 = closed pipe"
      "is_BytesIO pipe0 = is_BytesIO pipe"
    using assms(6) by auto
  have bounds: "(case kw_min_size kwargs of None \<Rightarrow> 0 | Some v \<Rightarrow> v) \<le> N \<and>
        (case (case kw_max_size kwargs of None \<Rightarrow> None | Some v \<Rightarrow> if v = 0 then None else Some v) of
           None \<Rightarrow> True | Some m \<Rightarrow> N \<le> m)"
    using assms(3,4) by (auto split: option.splits)
  show ?thesis
  proof (cases "int (length delivered) = N")
    case True
    then show ?thesis
      using assms(1,2) bounds loop p0
      by (simp add: write_streaming_response_to_pipe_def Let_def)
  next
    case False
    then show ?thesis
      using assms(1,2) bounds loop p0
      by (simp add: write_streaming_response_to_pipe_def Let_def)
  qed
qed

text \<open>
  The theorem at a 5-byte response delivered as 2 and 3 bytes, copied to a pipe (closed
  at the end) and to an \<open>io.BytesIO\<close> (left open).
\<close>

theorem stream_copy_outcome_witness:
  "write_streaming_response_to_pipe
     \<lparr>content_length = Some (py ''5''), raw = [[1, 2], [3, 4, 5]]\<rparr>
     \<lparr>written = [], flushed = True, closed = False, is_BytesIO = False\<rparr> no_options
   = (Returns (), [],
      \<lparr>written = [1, 2, 3, 4, 5], flushed = True, closed = True, is_BytesIO = False\<rparr>) \<and>
   write_streaming_response_to_pipe
     \<lparr>content_length = Some (py ''5''), raw = [[1, 2], [3, 4, 5]]\<rparr> new_BytesIO no_options
   = (Returns (), [],
      \<lparr>written = [1, 2, 3, 4, 5], flushed = True, closed = False, is_BytesIO = True\<rparr>)"
proof -
  let ?r = "\<lparr>content_length = Some (py ''5''), raw = [[1, 2], [3, 4, 5 :: byte]]\<rparr>"
  have h1: "content_length ?r = Some (py ''5'')" by simp
  have h3: "(case kw_min_size no_options of None \<Rightarrow> 0 | Some v \<Rightarrow> v) \<le> (5::int)"
    by (simp add: no_options_def)
  have h4: "(case kw_max_size no_options of None \<Rightarrow> True | Some m \<Rightarrow> m = 0 \<or> (5::int) \<le> m)"
    by (simp add: no_options_def)
  have h5: "\<forall>chunk\<in>set (raw ?r). length chunk \<le> chunk_size"
    by (simp add: chunk_size_def)
  have h6: "[1, 2, 3, 4, 5 :: byte] = concat (takeWhile (\<lambda>chunk. chunk \<noteq> []) (raw ?r))"
    by simp
  from stream_copy_outcome [OF h1 py_int_5 h3 h4 h5 h6,
      of "\<lparr>written = [], flushed = True, closed = False, is_BytesIO = False\<rparr>"]
  show ?thesis
    by (simp add: write_streaming_response_to_pipe_def py_int_5 no_options_def new_BytesIO_def
        chunk_size_def pipe_write_def)
qed

text \<open>
  C1 as the specification words it fails: a response that announces 5 bytes and ends
  after 3 makes the copy raise \<open>SystemExit\<close> with status 1, which is no
  \<open>SoundCloudException\<close>; \<open>download_track\<close> does not catch it, so with
  \<open>exit_on_fail\<close> unset, where an error of the track alone would let the batch go on,
  the whole invocation ends.
\<close>

theorem truncated_stream_exits_counterexample:
  "write_streaming_response_to_pipe truncated_response new_BytesIO original_options
   = (Raises (SystemExit 1), [],
      \<lparr>written = [1, 2, 3], flushed = True, closed = False, is_BytesIO = True\<rparr>) \<and>
   download_track copying_env example_track False original_options
     \<lparr>files = Map.empty, fileToKeep = []\<rparr>
   = (Raises (SystemExit 1), \<lparr>files = Map.empty, fileToKeep = []\<rparr>)"
proof -
  have w: "write_streaming_response_to_pipe truncated_response new_BytesIO original_options
   = (Raises (SystemExit 1), [],
      \<lparr>written = [1, 2, 3], flushed = True, closed = False, is_BytesIO = True\<rparr>)"
    by (simp add: write_streaming_response_to_pipe_def truncated_response_def original_options_def
        py_int_5 no_options_def new_BytesIO_def chunk_size_def pipe_write_def)
  have t: "re_encode_to_out_copy truncated_response original_options filename fs0
           = (Raises (SystemExit 1), fs0)" for filename fs0
    by (simp add: re_encode_to_out_copy_def copy_stream_def w)
  have k: "\<not> kw_onlymp3 original_options" "\<not> kw_no_original original_options"
    "\<not> kw_flac original_options" "kw_download_archive original_options = None"
    "\<not> kw_overwrite original_options" "kw_name_format original_options \<noteq> py ''-''"
    by (simp_all add: original_options_def no_options_def py_def)
  have a: "already_downloaded example_track (py ''Song'') (py ''song.wav'') original_options Map.empty
           = (Returns False, Map.empty)"
    by (simp add: already_downloaded_def k isfile_def Let_def)
  have e: "track_policy example_track \<noteq> py ''BLOCK''" "track_user_id example_track = 7"
    by (simp_all add: example_track_def py_def)
  have q: "download_track_acquire copying_env example_track (py ''Song'') original_options Map.empty
           = (Raises (SystemExit 1), Map.empty)"
    by (simp add: download_track_acquire_def download_original_file_def check_and_transfer_def
        is_downloading_to_stdout_def k e a t copying_env_def)
  have "track_title example_track = py ''Song''" by (simp add: example_track_def)
  then have "download_track copying_env example_track False original_options
     \<lparr>files = Map.empty, fileToKeep = []\<rparr>
   = (Raises (SystemExit 1), \<lparr>files = Map.empty, fileToKeep = []\<rparr>)"
    by (simp add: download_track_def download_track_try_def q)
  with w show ?thesis by simp
qed

section \<open>Decimal text and the lines of a ledger\<close>

text \<open>
  The decimal text of an integer reads back as that integer, and a ledger written as
  one ID per line is read back, line by line, as the IDs written.
\<close>

lemma str_nat_digits: "str_nat n \<noteq> [] \<and> (\<forall>ch\<in>set (str_nat n). isdigit ch)"
proof (induction n rule: str_nat.induct)
  case (1 n)
  show ?case
  proof (cases "n < 10")
    case True
    then show ?thesis by (simp add: str_nat.simps [of n] isdigit_def)
  next
    case False
    have "n mod 10 < 10" by simp
    then have "isdigit (48 + n mod 10)" unfolding isdigit_def by linarith
    then show ?thesis using False 1 by (simp add: str_nat.simps [of n])
  qed
qed

lemma int_digits_foldl:
  "\<forall>ch\<in>set s. isdigit ch \<Longrightarrow>
   int_digits acc s = Some (foldl (\<lambda>a ch. a * 10 + (ch - 48)) acc s)"
proof (induction acc s rule: int_digits.induct)
  case (1 acc)
  show ?case by simp
next
  case (2 acc ch)
  then show ?case by simp
next
  case (3 acc ch d s)
  from 3(3) have ch: "isdigit ch" and rest: "\<forall>c\<in>set (d # s). isdigit c" by simp_all
  from ch have "ch \<noteq> 95" by (auto simp: isdigit_def)
  then show ?case using ch 3(2) [OF _ ch rest] by simp
qed

lemma int_unsigned_digits:
  assumes "s \<noteq> []" and "\<forall>ch\<in>set s. isdigit ch"
  shows "int_unsigned s = Some (foldl (\<lambda>a ch. a * 10 + (ch - 48)) 0 s)"
proof (cases s)
  case Nil
  then show ?thesis using assms(1) by simp
next
  case (Cons ch t)
  then show ?thesis using assms(2) int_digits_foldl [of t "ch - 48"]
    by (simp add: int_unsigned_def)
qed

lemma foldl_str_nat: "foldl (\<lambda>a ch. a * 10 + (ch - 48)) 0 (str_nat n) = n"
proof (induction n rule: str_nat.induct)
  case (1 n)
  show ?case
  proof (cases "n < 10")
    case True
    then show ?thesis by (simp add: str_nat.simps [of n])
  next
    case False
    then show ?thesis using 1 by (simp add: str_nat.simps [of n])
  qed
qed

lemma int_unsigned_str_nat: "int_unsigned (str_nat n) = Some n"
  using int_unsigned_digits [of "str_nat n"] str_nat_digits [of n] foldl_str_nat [of n] by simp

lemma digit_not_space:
  "isdigit ch \<Longrightarrow>
   \<not> isspace ch \<and> \<not> int_space ch \<and> ch \<noteq> 10 \<and> ch \<noteq> 13 \<and> ch \<noteq> 45 \<and> ch \<noteq> 43"
  by (auto simp: isdigit_def isspace_def int_space_def)

lemma py_str_chars:
  "py_str i \<noteq> [] \<and>
   (\<forall>ch\<in>set (py_str i). \<not> isspace ch \<and> \<not> int_space ch \<and> ch \<noteq> 10 \<and> ch \<noteq> 13)"
  using str_nat_digits digit_not_space
  by (auto simp: py_str_def isspace_def int_space_def)

lemma dropWhile_id: "s \<noteq> [] \<Longrightarrow> \<not> P (hd s) \<Longrightarrow> dropWhile P s = s"
  by (cases s) simp_all

lemma strip_id:
  assumes "s \<noteq> []" and "\<forall>ch\<in>set s. \<not> P ch"
  shows "rev (dropWhile P (rev (dropWhile P s))) = s"
proof -
  have 1: "dropWhile P s = s" using assms by (intro dropWhile_id) auto
  have "rev s \<noteq> []" using assms(1) by simp
  moreover have "\<not> P (hd (rev s))" using assms by (simp add: hd_rev)
  ultimately have "dropWhile P (rev s) = rev s" by (rule dropWhile_id)
  then show ?thesis using 1 by simp
qed

lemma py_int_py_str: "py_int (py_str i) = Some i"
proof -
  have s: "rev (dropWhile int_space (rev (dropWhile int_space (py_str i)))) = py_str i"
    using py_str_chars [of i] by (intro strip_id) auto
  show ?thesis
  proof (cases "i < 0")
    case True
    then show ?thesis
      unfolding py_int_def s by (simp add: py_str_def int_unsigned_str_nat)
  next
    case False
    obtain ch t where ct: "str_nat (nat i) = ch # t"
      using str_nat_digits [of "nat i"] by (cases "str_nat (nat i)") auto
    then have "isdigit ch" using str_nat_digits [of "nat i"] by simp
    then have "ch \<noteq> 45" "ch \<noteq> 43" using digit_not_space by blast+
    moreover have "int_unsigned (ch # t) = Some (nat i)"
      using int_unsigned_str_nat [of "nat i"] ct by simp
    ultimately show ?thesis
      unfolding py_int_def s using False by (simp add: py_str_def ct)
  qed
qed

lemma universal_newlines_id: "13 \<notin> set s \<Longrightarrow> universal_newlines s = s"
  by (induction s rule: universal_newlines.induct) auto

lemma readlines_line:
  "10 \<notin> set a \<Longrightarrow> readlines (a @ 10 # rest) = (a @ [10]) # readlines rest"
  by (induction a) auto

lemma str_split_char_single: "sep \<notin> set a \<Longrightarrow> str_split_char a sep = [a]"
  by (induction a) auto

lemma str_split_char_line:
  "sep \<notin> set a \<Longrightarrow> str_split_char (a @ sep # rest) sep = a # str_split_char rest sep"
  by (induction a) auto

lemma those_py_int_py_str: "those (map py_int (map py_str xs)) = Some xs"
  by (induction xs) (simp_all add: py_int_py_str)

lemma strip_suffix:
  assumes "s \<noteq> []" and "\<not> P (hd s)" and "\<not> P (last s)" and "\<forall>ch\<in>set w. P ch"
  shows "rev (dropWhile P (rev (dropWhile P (s @ w)))) = s"
proof -
  have 1: "dropWhile P (s @ w) = s @ w"
    using assms(1,2) by (intro dropWhile_id) auto
  have "dropWhile P (rev w @ rev s) = dropWhile P (rev s)"
    using assms(4) by (intro dropWhile_append2) auto
  also have "\<dots> = rev s"
    using assms(1,3) by (intro dropWhile_id) (auto simp: hd_rev)
  finally show ?thesis using 1 by simp
qed

lemma readlines_ledger:
  "readlines (concat (map (\<lambda>i. py_str i @ [10]) xs)) = map (\<lambda>i. py_str i @ [10]) xs"
proof (induction xs)
  case Nil
  show ?case by simp
next
  case (Cons x xs)
  have "10 \<notin> set (py_str x)" using py_str_chars [of x] by auto
  from readlines_line [OF this, of "concat (map (\<lambda>i. py_str i @ [10]) xs)"] Cons show ?case
    by simp
qed

lemma universal_newlines_ledger:
  "universal_newlines (concat (map (\<lambda>i. py_str i @ [10]) xs)) =
     concat (map (\<lambda>i. py_str i @ [10]) xs)"
proof -
  have "13 \<notin> set (concat (map (\<lambda>i. py_str i @ [10]) xs))"
    using py_str_chars by auto
  then show ?thesis by (rule universal_newlines_id)
qed

lemma concat_readlines_ledger:
  "concat (readlines (concat (map (\<lambda>i. py_str i @ [10]) xs))) =
     concat (map (\<lambda>i. py_str i @ [10]) xs)"
  unfolding readlines_ledger by simp

lemma split_ledger:
  "str_split_char (concat (map (\<lambda>i. py_str i @ [10]) ys) @ py_str l) 10 =
     map py_str ys @ [py_str l]"
proof (induction ys)
  case Nil
  have "10 \<notin> set (py_str l)" using py_str_chars [of l] by auto
  then show ?case by (simp add: str_split_char_single)
next
  case (Cons y ys)
  have "10 \<notin> set (py_str y)" using py_str_chars [of y] by auto
  from str_split_char_line [OF this, of "concat (map (\<lambda>i. py_str i @ [10]) ys) @ py_str l"] Cons
  show ?case by simp
qed

lemma strip_ledger:
  "str_strip (concat (map (\<lambda>i. py_str i @ [10]) (ys @ [l]))) =
     concat (map (\<lambda>i. py_str i @ [10]) ys) @ py_str l"
proof -
  let ?s = "concat (map (\<lambda>i. py_str i @ [10]) ys) @ py_str l"
  have ne: "?s \<noteq> []" using py_str_chars [of l] by simp
  have last: "\<not> isspace (last ?s)" using py_str_chars [of l] by simp
  have hd: "\<not> isspace (hd ?s)"
  proof (cases ys)
    case Nil
    then show ?thesis using py_str_chars [of l] by simp
  next
    case (Cons y ys')
    then show ?thesis using py_str_chars [of y] by simp
  qed
  have w: "\<forall>ch\<in>set [10::nat]. isspace ch" by (simp add: isspace_def)
  have "concat (map (\<lambda>i. py_str i @ [10]) (ys @ [l])) = ?s @ [10]" by simp
  then show ?thesis
    unfolding str_strip_def using strip_suffix [OF ne hd last w] by simp
qed

lemma read_ledger:
  assumes "xs \<noteq> []"
  shows "those (map py_int
           (str_split_char (str_strip (concat (readlines (universal_newlines
              (concat (map (\<lambda>i. py_str i @ [10]) xs)))))) 10))
         = Some xs"
proof -
  from assms obtain ys l where xs: "xs = ys @ [l]" by (metis rev_exhaust)
  have "those (map py_int (map py_str ys @ [py_str l])) = Some (ys @ [l])"
    using those_py_int_py_str [of "ys @ [l]"] by simp
  then show ?thesis
    unfolding universal_newlines_ledger concat_readlines_ledger xs strip_ledger split_ledger .
qed

lemma strip_line: "str_strip (py_str i @ [10]) = py_str i"
proof -
  have "\<forall>ch\<in>set [10::nat]. isspace ch" by (simp add: isspace_def)
  moreover have "py_str i \<noteq> []" "\<not> isspace (hd (py_str i))" "\<not> isspace (last (py_str i))"
    using py_str_chars [of i] by auto
  ultimately show ?thesis unfolding str_strip_def by (intro strip_suffix) auto
qed

lemma py_str_inj: "py_str i = py_str j \<longleftrightarrow> i = j"
  by (metis py_int_py_str option.inject)

lemma ledger_member:
  "list_ex (\<lambda>line. str_strip line = py_str j)
     (readlines (universal_newlines (concat (map (\<lambda>i. py_str i @ [10]) xs))))
     \<longleftrightarrow> j \<in> set xs"
  unfolding universal_newlines_ledger readlines_ledger
  by (auto simp: list_ex_iff strip_line py_str_inj)

text \<open>
  Appending a line to a text that is empty or ends with a line break adds one line to
  the lines read from it, and changes none of them.
\<close>

lemma universal_newlines_append:
  "b \<noteq> [] \<Longrightarrow> hd b \<noteq> 10 \<Longrightarrow>
   universal_newlines (a @ b) = universal_newlines a @ universal_newlines b"
proof (induction a rule: universal_newlines.induct)
  case 1
  show ?case by simp
next
  case (2 ch)
  then show ?case by (cases b) auto
next
  case (3 ch d s)
  then show ?case by auto
qed

lemma universal_newlines_last:
  "t \<noteq> [] \<Longrightarrow>
   universal_newlines t \<noteq> [] \<and>
   last (universal_newlines t) = (if last t = 13 then 10 else last t)"
proof (induction t rule: universal_newlines.induct)
  case 1
  then show ?case by simp
next
  case (2 ch)
  show ?case by simp
next
  case (3 ch d s)
  show ?case
  proof (cases "ch = 13 \<and> d = 10")
    case True
    then show ?thesis using 3(1) by (cases "s = []") auto
  next
    case False
    then show ?thesis using 3(2,3) by auto
  qed
qed

lemma readlines_Nil: "readlines a = [] \<longleftrightarrow> a = []"
  by (cases a) (auto split: list.splits)

lemma readlines_append:
  "a = [] \<or> last a = 10 \<Longrightarrow> readlines (a @ b) = readlines a @ readlines b"
proof (induction a)
  case Nil
  show ?case by simp
next
  case (Cons ch a)
  show ?case
  proof (cases "ch = 10")
    case True
    have "a = [] \<or> last a = 10" using Cons.prems by (cases "a = []") auto
    then show ?thesis using True Cons.IH by simp
  next
    case False
    then have a: "a \<noteq> []" "last a = 10" using Cons.prems by (cases "a = []"; simp)+
    then obtain l ls where l: "readlines a = l # ls"
      using readlines_Nil [of a] by (cases "readlines a") auto
    show ?thesis using False Cons.IH a l by simp
  qed
qed

lemma readlines_entry: "readlines (py_str i @ [10]) = [py_str i @ [10]]"
proof -
  have "10 \<notin> set (py_str i)" using py_str_chars [of i] by auto
  from readlines_line [OF this, of "[]"] show ?thesis by simp
qed

lemma appended_lines:
  assumes "ledger = [] \<or> last ledger = 10 \<or> last ledger = 13"
  shows "readlines (universal_newlines (ledger @ py_str i @ [10])) =
           readlines (universal_newlines ledger) @ [py_str i @ [10]]"
proof -
  let ?entry = "py_str i @ [10]"
  have hd: "?entry \<noteq> []" "hd ?entry \<noteq> 10"
    using py_str_chars [of i] by (cases "py_str i"; auto)+
  have "13 \<notin> set ?entry" using py_str_chars [of i] by auto
  then have e: "universal_newlines ?entry = ?entry" by (rule universal_newlines_id)
  have u: "universal_newlines (ledger @ ?entry) = universal_newlines ledger @ ?entry"
    using universal_newlines_append [OF hd, of ledger] e by simp
  have "universal_newlines ledger = [] \<or> last (universal_newlines ledger) = 10"
  proof (cases "ledger = []")
    case True
    then show ?thesis by simp
  next
    case False
    then show ?thesis using universal_newlines_last [OF False] assms by auto
  qed
  from readlines_append [OF this, of ?entry] show ?thesis
    unfolding u by (simp add: readlines_entry)
qed

section \<open>The download archive and existing files\<close>

lemmas fs_eval_defs = no_options_def example_track_def py_def isfile_def file_text_def
  in_download_archive_def record_download_archive_def already_downloaded_def
  is_downloading_to_stdout_def check_and_transfer_def download_original_file_def
  download_hls_def download_track_acquire_def download_track_finish_def download_track_try_def
  download_track_def str_strip_def isspace_def py_str_def str_nat.simps Let_def

text \<open>
  C10, as the code has it. With an archive configured whose file does not exist,
  \<open>in_download_archive\<close> returns \<open>False\<close>; it leaves an empty file at the archive
  path when the directory of that path exists, and nothing when it does not (the
  \<open>IOError\<close> is logged). No call changes or removes the text of an existing file, so
  that every line of the ledger stays.
\<close>

theorem in_download_archive_frame:
  "(kw_download_archive kwargs = Some path \<and> path \<noteq> [] \<and> fs0 path = None \<longrightarrow>
      in_download_archive track kwargs fs0 =
        (Some False, if can_create fs0 path then fs0(path \<mapsto> File []) else fs0)) \<and>
   (\<forall>p text. fs0 p = Some (File text) \<longrightarrow>
      snd (in_download_archive track kwargs fs0) p = Some (File text))"
  by (auto simp: in_download_archive_def split: option.splits node.splits)

text \<open>
  The theorem at an archive \<open>/a.txt\<close> that does not exist, beside a file
  \<open>song.mp3\<close>: the root directory exists, and the ledger is created.
\<close>

theorem in_download_archive_frame_witness:
  "in_download_archive example_track (no_options\<lparr>kw_download_archive := Some (py ''/a.txt'')\<rparr>)
     (Map.empty(py ''song.mp3'' \<mapsto> File (py ''abc''))) =
   (Some False, (Map.empty(py ''song.mp3'' \<mapsto> File (py ''abc'')))(py ''/a.txt'' \<mapsto> File [])) \<and>
   snd (in_download_archive example_track (no_options\<lparr>kw_download_archive := Some (py ''/a.txt'')\<rparr>)
     (Map.empty(py ''song.mp3'' \<mapsto> File (py ''abc'')))) (py ''song.mp3'') = Some (File (py ''abc''))"
  using in_download_archive_frame [of "no_options\<lparr>kw_download_archive := Some (py ''/a.txt'')\<rparr>"
      "py ''/a.txt''" "Map.empty(py ''song.mp3'' \<mapsto> File (py ''abc''))" example_track]
  by (simp add: no_options_def py_def can_create_def dirname_def rfind_def)

text \<open>
  C10 as the specification words it fails: the archive \<open>/plainfile/a.txt\<close> does not
  exist and \<open>/plainfile\<close> is a regular file. The check returns \<open>False\<close> and creates
  no ledger: the file system is as it was.
\<close>

theorem in_download_archive_not_created_counterexample:
  "(Map.empty(py ''/plainfile'' \<mapsto> File (py ''abc''))) (py ''/plainfile/a.txt'') = None \<and>
   in_download_archive example_track
     (no_options\<lparr>kw_download_archive := Some (py ''/plainfile/a.txt'')\<rparr>)
     (Map.empty(py ''/plainfile'' \<mapsto> File (py ''abc'')))
   = (Some False, Map.empty(py ''/plainfile'' \<mapsto> File (py ''abc'')))"
  by (simp add: in_download_archive_def no_options_def py_def can_create_def dirname_def rfind_def)

text \<open>
  C4, as the code has it. Call the track present when the target file exists, or
  (with \<open>--flac\<close> and a convertible name) its \<open>.flac\<close> sibling exists, or its ID is
  a line of the configured archive; and call it converting when, with \<open>--flac\<close>
  and a convertible name, the target file itself exists. For a track that is present
  and not converting: with \<open>--overwrite\<close> the function returns \<open>False\<close> (not
  downloaded, the download goes on); otherwise with \<open>-c\<close>, \<open>--remove\<close> or
  \<open>--force-metadata\<close> it returns \<open>True\<close>; otherwise it ends the invocation with
  \<open>sys.exit(1)\<close>. In every other case it returns \<open>False\<close>.
\<close>

theorem already_downloaded_outcome:
  "already_downloaded track title filename kwargs fs0 =
     (let archive = in_download_archive track kwargs fs0;
          present = (isfile fs0 filename \<or>
                     (kw_flac kwargs \<and> can_convert filename \<and>
                      isfile fs0 (take (length filename - 4) filename @ py ''.flac'')) \<or>
                     fst archive = Some True);
          converting = (kw_flac kwargs \<and> can_convert filename \<and> isfile (snd archive) filename)
      in if present \<and> \<not> converting \<and> \<not> kw_overwrite kwargs
         then (if kw_c kwargs \<or> kw_remove kwargs \<or> kw_force_metadata kwargs
               then (Returns True, snd archive)
               else (Raises (SystemExit 1), snd archive))
         else (Returns False, snd archive))"
proof -
  have a: "(case kw_download_archive kwargs of
              None \<Rightarrow> (None, fs0)
            | Some archive_filename \<Rightarrow>
                if archive_filename = [] then (None, fs0)
                else in_download_archive track kwargs fs0) = in_download_archive track kwargs fs0"
    by (simp add: in_download_archive_def split: option.splits)
  show ?thesis
    unfolding already_downloaded_def a by (simp add: Let_def)
qed

text \<open>
  The theorem at an existing \<open>song.mp3\<close>: a hard stop without options, \<open>True\<close>
  with \<open>-c\<close>.
\<close>

theorem already_downloaded_outcome_witness:
  "already_downloaded example_track (py ''Song'') (py ''song.mp3'') no_options
     (Map.empty(py ''song.mp3'' \<mapsto> File (py ''abc'')))
   = (Raises (SystemExit 1), Map.empty(py ''song.mp3'' \<mapsto> File (py ''abc''))) \<and>
   already_downloaded example_track (py ''Song'') (py ''song.mp3'') (no_options\<lparr>kw_c := True\<rparr>)
     (Map.empty(py ''song.mp3'' \<mapsto> File (py ''abc'')))
   = (Returns True, Map.empty(py ''song.mp3'' \<mapsto> File (py ''abc'')))"
  using already_downloaded_outcome [of example_track "py ''Song''" "py ''song.mp3''" no_options
      "Map.empty(py ''song.mp3'' \<mapsto> File (py ''abc''))"]
    already_downloaded_outcome [of example_track "py ''Song''" "py ''song.mp3''"
      "no_options\<lparr>kw_c := True\<rparr>" "Map.empty(py ''song.mp3'' \<mapsto> File (py ''abc''))"]
  by (simp add: no_options_def isfile_def in_download_archive_def)

text \<open>
  C4 as the specification words it fails for \<open>--overwrite\<close>: the target file
  exists, one of the four options was requested, and the file is reported as not
  downloaded.
\<close>

theorem overwrite_not_reported_counterexample:
  "isfile (Map.empty(py ''song.mp3'' \<mapsto> File (py ''abc''))) (py ''song.mp3'') \<and>
   already_downloaded example_track (py ''Song'') (py ''song.mp3'')
     (no_options\<lparr>kw_overwrite := True\<rparr>) (Map.empty(py ''song.mp3'' \<mapsto> File (py ''abc'')))
   = (Returns False, Map.empty(py ''song.mp3'' \<mapsto> File (py ''abc'')))"
  by (simp add: already_downloaded_def no_options_def isfile_def Let_def)

text \<open>
  C9, as the code has it. With an archive configured, once the first part of
  \<open>download_track\<close> has given a filename (the file freshly written or already
  there, \<open>is_already_downloaded\<close> either way; the archive is not the target file),
  the text of the track's ID and a newline is appended to the ledger, whatever it
  holds: its former text is kept in front, and nothing checks whether the ID is already
  a line of it. When the former text is empty or ends with a line break, the ID is a
  new last line after the former lines, the number of lines that hold the ID grows by
  one, and the membership check finds the ID afterwards. A ledger that does not exist
  is created with that one line when its directory exists. When the archive path is a
  directory, or names nothing where nothing can be created, nothing is written.
\<close>

theorem download_track_appends_to_archive:
  assumes "kw_download_archive kwargs = Some path" and "path \<noteq> []"
    and "download_track_acquire env track (track_title track) kwargs (files w)
           = (Returns (Some (filename, is_already_downloaded)), fs1)"
    and "filename \<noteq> path"
    and "fs2 = files (snd (download_track env track exit_on_fail kwargs w))"
    and "entry = py_str (track_id track) @ [10]"
  shows "(\<forall>ledger. fs1 path = Some (File ledger) \<longrightarrow>
            fs2 path = Some (File (ledger @ entry)) \<and>
            (ledger = [] \<or> last ledger = 10 \<or> last ledger = 13 \<longrightarrow>
               readlines (universal_newlines (ledger @ entry)) =
                 readlines (universal_newlines ledger) @ [entry] \<and>
               length (filter (\<lambda>line. str_strip line = py_str (track_id track))
                         (readlines (universal_newlines (ledger @ entry)))) =
                 length (filter (\<lambda>line. str_strip line = py_str (track_id track))
                           (readlines (universal_newlines ledger))) + 1 \<and>
               fst (in_download_archive track kwargs fs2) = Some True)) \<and>
         (fs1 path = None \<and> can_create fs1 path \<longrightarrow> fs2 path = Some (File entry)) \<and>
         (fs1 path = Some Directory \<or> (fs1 path = None \<and> \<not> can_create fs1 path) \<longrightarrow>
            fs2 path = fs1 path)"
proof -
  let ?fs = "record_download_archive track kwargs fs1"
  have fin: "files (snd (download_track_finish env track filename is_already_downloaded kwargs
               (w\<lparr>files := fs1\<rparr>))) path = ?fs path"
    using assms(4)
    by (auto simp: download_track_finish_def Let_def split: option.splits node.splits result.splits)
  have "files (snd (download_track env track exit_on_fail kwargs w)) path =
        files (snd (download_track_finish env track filename is_already_downloaded kwargs
               (w\<lparr>files := fs1\<rparr>))) path"
    using assms(3)
    by (auto simp: download_track_def download_track_try_def split: prod.splits result.splits exn.splits)
  then have fs2: "fs2 path = ?fs path" using fin assms(5) by simp
  have written: "fs2 path = Some (File (ledger @ entry))" if "fs1 path = Some (File ledger)" for ledger
    using that assms(1,2,6) unfolding fs2 by (simp add: record_download_archive_def)
  have created: "fs2 path = Some (File entry)" if "fs1 path = None" "can_create fs1 path"
    using that assms(1,2,6) unfolding fs2 by (simp add: record_download_archive_def)
  have directory: "fs2 path = fs1 path" if "fs1 path = Some Directory"
    using that assms(1,2) unfolding fs2 by (simp add: record_download_archive_def)
  have missing: "fs2 path = fs1 path" if "fs1 path = None" "\<not> can_create fs1 path"
    using that assms(1,2) unfolding fs2 by (simp add: record_download_archive_def)
  have lines: "readlines (universal_newlines (ledger @ entry)) =
                 readlines (universal_newlines ledger) @ [entry]"
    if "ledger = [] \<or> last ledger = 10 \<or> last ledger = 13" for ledger
    unfolding assms(6) using that by (rule appended_lines)
  have strip: "str_strip entry = py_str (track_id track)"
    unfolding assms(6) by (rule strip_line)
  have found: "fst (in_download_archive track kwargs fs2) = Some True"
    if "fs1 path = Some (File ledger)" "ledger = [] \<or> last ledger = 10 \<or> last ledger = 13" for ledger
    using written [OF that(1)] assms(1,2) strip
    by (simp add: in_download_archive_def lines [OF that(2)])
  show ?thesis
  proof (intro conjI allI impI)
    fix ledger assume "fs1 path = Some (File ledger)"
    then show "fs2 path = Some (File (ledger @ entry))" by (rule written)
  next
    fix ledger assume "fs1 path = Some (File ledger)"
      and "ledger = [] \<or> last ledger = 10 \<or> last ledger = 13"
    then show "readlines (universal_newlines (ledger @ entry)) =
                 readlines (universal_newlines ledger) @ [entry]"
      by (simp only: lines)
  next
    fix ledger assume "fs1 path = Some (File ledger)"
      and "ledger = [] \<or> last ledger = 10 \<or> last ledger = 13"
    then show "length (filter (\<lambda>line. str_strip line = py_str (track_id track))
                         (readlines (universal_newlines (ledger @ entry)))) =
                 length (filter (\<lambda>line. str_strip line = py_str (track_id track))
                           (readlines (universal_newlines ledger))) + 1"
      by (simp add: lines strip)
  next
    fix ledger assume "fs1 path = Some (File ledger)"
      and "ledger = [] \<or> last ledger = 10 \<or> last ledger = 13"
    then show "fst (in_download_archive track kwargs fs2) = Some True" by (rule found)
  next
    assume "fs1 path = None \<and> can_create fs1 path"
    then show "fs2 path = Some (File entry)" using created by blast
  next
    assume "fs1 path = Some Directory \<or> (fs1 path = None \<and> \<not> can_create fs1 path)"
    then show "fs2 path = fs1 path" using directory missing by blast
  qed
qed

text \<open>
  The theorem at a ledger that holds 77 and a fresh download of track 123: the ledger
  then holds the lines 77 and 123.
\<close>

theorem download_track_appends_to_archive_witness:
  "kw_download_archive (no_options\<lparr>kw_download_archive := Some (py ''/a.txt'')\<rparr>) = Some (py ''/a.txt'') \<and>
   download_track_acquire example_env example_track (track_title example_track)
       (no_options\<lparr>kw_download_archive := Some (py ''/a.txt'')\<rparr>)
       (Map.empty(py ''/a.txt'' \<mapsto> File (py ''77\<newline>'')))
     = (Returns (Some (py ''song.mp3'', False)),
        (Map.empty(py ''/a.txt'' \<mapsto> File (py ''77\<newline>'')))(py ''song.mp3'' \<mapsto> File (py ''audio''))) \<and>
   files (snd (download_track example_env example_track False
       (no_options\<lparr>kw_download_archive := Some (py ''/a.txt'')\<rparr>)
       \<lparr>files = Map.empty(py ''/a.txt'' \<mapsto> File (py ''77\<newline>'')), fileToKeep = []\<rparr>))
     (py ''/a.txt'')
     = Some (File (py ''77\<newline>123\<newline>'')) \<and>
   readlines (universal_newlines (py ''77\<newline>123\<newline>''))
     = [py ''77\<newline>'', py ''123\<newline>'']"
proof -
  let ?kw = "no_options\<lparr>kw_download_archive := Some (py ''/a.txt'')\<rparr>"
  let ?fs0 = "Map.empty(py ''/a.txt'' \<mapsto> File (py ''77\<newline>''))"
  let ?fs1 = "?fs0(py ''song.mp3'' \<mapsto> File (py ''audio''))"
  let ?w = "\<lparr>files = ?fs0, fileToKeep = []\<rparr>"
  have h1: "kw_download_archive ?kw = Some (py ''/a.txt'')" by simp
  have h2: "py ''/a.txt'' \<noteq> []" by (simp add: py_def)
  have h3: "download_track_acquire example_env example_track (track_title example_track) ?kw (files ?w)
              = (Returns (Some (py ''song.mp3'', False)), ?fs1)"
    by (simp add: fs_eval_defs example_env_def)
  have h4: "py ''song.mp3'' \<noteq> py ''/a.txt''" by (simp add: py_def)
  have f: "?fs1 (py ''/a.txt'') = Some (File (py ''77\<newline>''))" by (simp add: py_def)
  have l: "py ''77\<newline>'' = [] \<or> last (py ''77\<newline>'') = 10 \<or> last (py ''77\<newline>'') = 13"
    by (simp add: py_def)
  have e: "py ''77\<newline>'' @ py_str (track_id example_track) @ [10] = py ''77\<newline>123\<newline>''"
    by (simp add: fs_eval_defs)
  have r: "readlines (universal_newlines (py ''77\<newline>'')) @ [py_str (track_id example_track) @ [10]]
             = [py ''77\<newline>'', py ''123\<newline>'']"
    by (simp add: fs_eval_defs)
  note t = download_track_appends_to_archive [OF h1 h2 h3 h4 refl refl, of False,
      THEN conjunct1, THEN spec, THEN mp, OF f]
  from t [THEN conjunct1] have a: "files (snd (download_track example_env example_track False ?kw ?w))
      (py ''/a.txt'') = Some (File (py ''77\<newline>123\<newline>''))"
    by (simp only: e)
  from t [THEN conjunct2, THEN mp, OF l, THEN conjunct1]
  have b: "readlines (universal_newlines (py ''77\<newline>123\<newline>''))
             = [py ''77\<newline>'', py ''123\<newline>'']"
    by (simp only: e r)
  from h1 h3 a b show ?thesis by simp
qed

text \<open>
  C9 as the specification words it fails: with \<open>-c\<close> and a ledger that already
  holds 123, processing track 123 leaves the ID twice in the ledger.
\<close>

theorem download_track_duplicates_counterexample:
  "file_text (files (snd (download_track example_env example_track False
       (no_options\<lparr>kw_c := True, kw_download_archive := Some (py ''/a.txt'')\<rparr>)
       \<lparr>files = Map.empty(py ''/a.txt'' \<mapsto> File (py ''123\<newline>'')), fileToKeep = []\<rparr>)))
     (py ''/a.txt'')
   = py ''123\<newline>123\<newline>'' \<and>
   readlines (universal_newlines (py ''123\<newline>123\<newline>''))
   = [py ''123\<newline>'', py ''123\<newline>'']"
  by (simp add: fs_eval_defs example_env_def)

text \<open>
  A ledger whose last line has no line break shows why the new line needs one before
  it: after 77 without a newline, recording track 123 leaves the one line 77123, and
  the membership check finds neither ID.
\<close>

lemma record_after_unterminated_line:
  "record_download_archive example_track (no_options\<lparr>kw_download_archive := Some (py ''/a.txt'')\<rparr>)
     (Map.empty(py ''/a.txt'' \<mapsto> File (py ''77'')))
   = Map.empty(py ''/a.txt'' \<mapsto> File (py ''77123\<newline>'')) \<and>
   fst (in_download_archive example_track (no_options\<lparr>kw_download_archive := Some (py ''/a.txt'')\<rparr>)
     (Map.empty(py ''/a.txt'' \<mapsto> File (py ''77123\<newline>'')))) = Some False \<and>
   fst (in_download_archive (example_track\<lparr>track_id := 77\<rparr>)
     (no_options\<lparr>kw_download_archive := Some (py ''/a.txt'')\<rparr>)
     (Map.empty(py ''/a.txt'' \<mapsto> File (py ''77123\<newline>'')))) = Some False"
  by (simp add: fs_eval_defs)

section \<open>Synchronising a playlist with its archive\<close>

lemma str_split_char_not_Nil: "str_split_char s sep \<noteq> []"
  by (induction s) (auto split: list.splits)

lemma those_map_not_Nil: "those (map f xs) = Some ys \<Longrightarrow> xs \<noteq> [] \<Longrightarrow> ys \<noteq> []"
  by (cases xs) (auto split: option.splits)

lemmas sync_eval_defs = sync_def audio_extensions_def example_filename_def track_numbered_def
  example_track_def no_options_def py_def py_str_def str_nat.simps py_int_def int_space_def
  isspace_def int_unsigned_def isdigit_def str_strip_def file_text_def Let_def

text \<open>
  C5, as the code has it. Let the ledger be a file whose text, stripped and split at
  newlines, reads as the integers \<open>old\<close>; such a list is never empty. With
  \<open>new\<close> the IDs of the playlist, \<open>add = set new - set old\<close> and
  \<open>rem = set old - set new\<close>:
  \<^item> when both are empty (as for the same set twice), \<open>sync\<close> logs
    "No changes found. Exiting..." and exits with status 0, the files untouched;
  \<^item> when only \<open>add\<close> is not empty, it returns the playlist's tracks whose ID is in
    \<open>add\<close>, the files untouched;
  \<^item> when \<open>rem\<close> is not empty and the removal of the local files completes, the
    ledger is rewritten as a whole to the IDs of \<open>old\<close> that are not in \<open>rem\<close>,
    one per line in their former order, which as a set is \<open>set old - rem\<close>; then
    the tracks of \<open>add\<close> are returned, or, when there are none, \<open>sync\<close> exits
    with status 0 after "No tracks to download. Exiting...".

  The rewritten ledger contains exactly these IDs for the code that reads it: the
  membership check \<open>in_download_archive\<close> (\<open>main\<close> makes the sync archive the
  download archive) finds an ID in it if and only if the ID is in \<open>set old - rem\<close>,
  and, unless it is empty, the next \<open>sync\<close> reads it as the list written.
\<close>

theorem sync_set_difference:
  assumes "kw_sync kwargs = Some archive" and "disk archive = Some (File ledger)"
    and "those (map py_int
           (str_split_char (str_strip (concat (readlines (universal_newlines ledger)))) 10))
         = Some old"
    and "new = map track_id tracks" and "add = set new - set old" and "rem = set old - set new"
    and "kept = filter (\<lambda>i. i \<notin> rem) old"
  shows "old \<noteq> [] \<and>
         (add = {} \<and> rem = {} \<longrightarrow>
            sync get_filename order tracks kwargs disk =
              (Raises (SystemExit 0),
               [py ''Comparing tracks...'', py ''No changes found. Exiting...''], disk)) \<and>
         (rem = {} \<and> add \<noteq> {} \<longrightarrow>
            sync get_filename order tracks kwargs disk =
              (Returns (filter (\<lambda>track. track_id track \<in> add) tracks),
               [py ''Comparing tracks...'', py ''No tracks to remove.''], disk)) \<and>
         (rem \<noteq> {} \<longrightarrow>
            (\<forall>log1 fs1.
               remove_tracks get_filename (order (remdups (filter (\<lambda>i. i \<in> rem) old)))
                 [py ''Comparing tracks...''] disk = (None, log1, fs1) \<and>
               fs1 archive \<noteq> Some Directory \<longrightarrow>
               sync get_filename order tracks kwargs disk =
                 ((if add \<noteq> {} then Returns (filter (\<lambda>track. track_id track \<in> add) tracks)
                   else Raises (SystemExit 0)),
                  (if add \<noteq> {} then log1
                   else log1 @ [py ''No tracks to download. Exiting...'']),
                  fs1(archive \<mapsto> File (concat (map (\<lambda>i. py_str i @ [10]) kept))))) \<and>
            set kept = set old - rem \<and>
            (\<forall>track files1.
               archive \<noteq> [] \<longrightarrow>
               fst (in_download_archive track (kwargs\<lparr>kw_download_archive := Some archive\<rparr>)
                      (files1(archive \<mapsto> File (concat (map (\<lambda>i. py_str i @ [10]) kept)))))
                 = Some (track_id track \<in> set old - rem)) \<and>
            (kept \<noteq> [] \<longrightarrow>
               those (map py_int
                 (str_split_char (str_strip (concat (readlines (universal_newlines
                    (concat (map (\<lambda>i. py_str i @ [10]) kept)))))) 10))
               = Some kept))"
proof -
  have ks: "set kept = set old - rem" using assms(7) by auto
  have fa: "set (map track_id tracks) - set old = add"
    and fr: "set old - set (map track_id tracks) = rem"
    using assms(4,5,6) by simp_all
  note unfold = sync_def Let_def assms(1,2,3) option.case node.case fa fr
  show ?thesis
  proof (intro conjI impI allI)
    show "old \<noteq> []"
      using those_map_not_Nil [OF assms(3)] str_split_char_not_Nil by blast
  next
    assume "add = {} \<and> rem = {}"
    then show "sync get_filename order tracks kwargs disk =
                (Raises (SystemExit 0),
                 [py ''Comparing tracks...'', py ''No changes found. Exiting...''], disk)"
      unfolding unfold by simp
  next
    assume "rem = {} \<and> add \<noteq> {}"
    then show "sync get_filename order tracks kwargs disk =
                (Returns (filter (\<lambda>track. track_id track \<in> add) tracks),
                 [py ''Comparing tracks...'', py ''No tracks to remove.''], disk)"
      unfolding unfold by simp
  next
    fix log1 fs1
    assume r: "rem \<noteq> {}"
      and h: "remove_tracks get_filename (order (remdups (filter (\<lambda>i. i \<in> rem) old)))
                   [py ''Comparing tracks...''] disk = (None, log1, fs1) \<and>
                 fs1 archive \<noteq> Some Directory"
    have nd: "(case fs1 archive of
                 None \<Rightarrow> (None, log1, fs1(archive \<mapsto> File (concat (map (\<lambda>i. py_str i @ [10])
                          (filter (\<lambda>i. i \<notin> rem) old)))))
               | Some (File x) \<Rightarrow> (None, log1, fs1(archive \<mapsto> File (concat (map (\<lambda>i. py_str i @ [10])
                          (filter (\<lambda>i. i \<notin> rem) old)))))
               | Some Directory \<Rightarrow> (Some OSError, log1, fs1))
              = (None, log1, fs1(archive \<mapsto> File (concat (map (\<lambda>i. py_str i @ [10])
                          (filter (\<lambda>i. i \<notin> rem) old)))))"
      using h by (simp split: option.splits node.splits)
    show "sync get_filename order tracks kwargs disk =
                   ((if add \<noteq> {} then Returns (filter (\<lambda>track. track_id track \<in> add) tracks)
                     else Raises (SystemExit 0)),
                    (if add \<noteq> {} then log1
                     else log1 @ [py ''No tracks to download. Exiting...'']),
                    fs1(archive \<mapsto> File (concat (map (\<lambda>i. py_str i @ [10]) kept))))"
      using r h unfolding unfold assms(7) by (simp add: nd)
  next
    show "set kept = set old - rem" by (rule ks)
  next
    fix track files1
    assume "archive \<noteq> []"
    then show "fst (in_download_archive track (kwargs\<lparr>kw_download_archive := Some archive\<rparr>)
                      (files1(archive \<mapsto> File (concat (map (\<lambda>i. py_str i @ [10]) kept)))))
                 = Some (track_id track \<in> set old - rem)"
      using ledger_member [of "track_id track" kept] ks by (simp add: in_download_archive_def)
  next
    assume "kept \<noteq> []"
    then show "those (map py_int
                 (str_split_char (str_strip (concat (readlines (universal_newlines
                    (concat (map (\<lambda>i. py_str i @ [10]) kept)))))) 10))
               = Some kept"
      by (rule read_ledger)
  qed
qed

text \<open>
  The theorem at the ledger 1, 2, 3. Against the playlist 2, 3, 4 the track 4 is
  returned, the file of track 1 is removed and the ledger becomes 2, 3; against the
  playlist 3, 1, 2 there are no changes.
\<close>

theorem sync_set_difference_witness:
  "fst (sync example_filename (\<lambda>xs. xs) (map track_numbered [2, 3, 4])
          (no_options\<lparr>kw_sync := Some (py ''/a.txt'')\<rparr>)
          (Map.empty(py ''/a.txt'' \<mapsto> File (py ''1\<newline>2\<newline>3\<newline>''),
                     py ''track1.mp3'' \<mapsto> File (py ''audio''))))
     = Returns [track_numbered 4] \<and>
   file_text (snd (snd (sync example_filename (\<lambda>xs. xs) (map track_numbered [2, 3, 4])
          (no_options\<lparr>kw_sync := Some (py ''/a.txt'')\<rparr>)
          (Map.empty(py ''/a.txt'' \<mapsto> File (py ''1\<newline>2\<newline>3\<newline>''),
                     py ''track1.mp3'' \<mapsto> File (py ''audio'')))))) (py ''/a.txt'')
     = py ''2\<newline>3\<newline>'' \<and>
   snd (snd (sync example_filename (\<lambda>xs. xs) (map track_numbered [2, 3, 4])
          (no_options\<lparr>kw_sync := Some (py ''/a.txt'')\<rparr>)
          (Map.empty(py ''/a.txt'' \<mapsto> File (py ''1\<newline>2\<newline>3\<newline>''),
                     py ''track1.mp3'' \<mapsto> File (py ''audio''))))) (py ''track1.mp3'')
     = None \<and>
   fst (sync example_filename (\<lambda>xs. xs) (map track_numbered [3, 1, 2])
          (no_options\<lparr>kw_sync := Some (py ''/a.txt'')\<rparr>)
          (Map.empty(py ''/a.txt'' \<mapsto> File (py ''1\<newline>2\<newline>3\<newline>''))))
     = Raises (SystemExit 0) \<and>
   fst (snd (sync example_filename (\<lambda>xs. xs) (map track_numbered [3, 1, 2])
          (no_options\<lparr>kw_sync := Some (py ''/a.txt'')\<rparr>)
          (Map.empty(py ''/a.txt'' \<mapsto> File (py ''1\<newline>2\<newline>3\<newline>'')))))
     = [py ''Comparing tracks...'', py ''No changes found. Exiting...'']"
proof -
  let ?kw = "no_options\<lparr>kw_sync := Some (py ''/a.txt'')\<rparr>"
  let ?fs = "Map.empty(py ''/a.txt'' \<mapsto> File (py ''1\<newline>2\<newline>3\<newline>''))"
  have h1: "kw_sync ?kw = Some (py ''/a.txt'')" by simp
  have h2: "?fs (py ''/a.txt'') = Some (File (py ''1\<newline>2\<newline>3\<newline>''))" by simp
  have h3: "those (map py_int (str_split_char (str_strip (concat (readlines
              (universal_newlines (py ''1\<newline>2\<newline>3\<newline>''))))) 10)) = Some [1, 2, 3]"
    by (simp add: sync_eval_defs)
  have same: "sync example_filename (\<lambda>xs. xs) (map track_numbered [3, 1, 2]) ?kw ?fs =
     (Raises (SystemExit 0), [py ''Comparing tracks...'', py ''No changes found. Exiting...''], ?fs)"
    using sync_set_difference [where kwargs = "?kw" and archive = "py ''/a.txt''" and disk = "?fs"
        and ledger = "py ''1\<newline>2\<newline>3\<newline>''" and old = "[1, 2, 3]"
        and tracks = "map track_numbered [3, 1, 2]" and get_filename = example_filename
        and order = "\<lambda>xs. xs", OF h1 h2 h3 refl refl refl refl]
    by (simp add: track_numbered_def)
  have diff: "sync example_filename (\<lambda>xs. xs) (map track_numbered [2, 3, 4]) ?kw
          (?fs(py ''track1.mp3'' \<mapsto> File (py ''audio'')))
     = (Returns [track_numbered 4], [py ''Comparing tracks...'', py ''Removed track1.mp3''],
        (?fs(py ''track1.mp3'' := None))(py ''/a.txt'' \<mapsto> File (py ''2\<newline>3\<newline>'')))"
    by (simp add: sync_eval_defs)
  show ?thesis
    unfolding same diff by (simp add: file_text_def py_def)
qed

text \<open>
  C5 as the specification words it fails for the empty set: with an empty ledger and an
  empty playlist, \<open>sync\<close> does not signal "no changes" but logs an error and exits
  with status 1 (\<open>int('')\<close> raises \<open>ValueError\<close>).
\<close>

theorem sync_empty_ledger_counterexample:
  "fst (sync example_filename (\<lambda>xs. xs) []
          (no_options\<lparr>kw_sync := Some (py ''/a.txt'')\<rparr>)
          (Map.empty(py ''/a.txt'' \<mapsto> File [])))
     = Raises (SystemExit 1) \<and>
   fst (snd (sync example_filename (\<lambda>xs. xs) []
          (no_options\<lparr>kw_sync := Some (py ''/a.txt'')\<rparr>)
          (Map.empty(py ''/a.txt'' \<mapsto> File []))))
     = [py ''Comparing tracks...'',
        py ''Error trying to convert track ids. Verify archive file is not empty.'']"
  by (simp add: sync_eval_defs)

section \<open>Metadata: artwork and artist\<close>

lemmas md_eval_defs = add_metadata_to_stream_def try_get_artwork_def unreachable_get_def
  example_track_def no_options_def py_def str_lower_def str_startswith_def str_contains_def
  str_split1_def str_strip_def isspace_def dashes_def Let_def

text \<open>
  C7, as the code has it. An attempt yields artwork exactly when the request returns a
  response whose status is 200 and whose content type, in lower case, is
  \<open>image/png\<close>, \<open>image/jpeg\<close> or \<open>image/jpg\<close>. The original-resolution URL is
  requested first, and only, when original art was asked for; the 500x500 URL is
  requested when original art was not asked for or that first attempt yielded nothing.
  When the requests raise nothing but \<open>RequestException\<close>, the metadata is built
  without an error, and it has no artwork exactly when every attempt made yielded
  nothing.
\<close>

theorem artwork_attempts:
  "(\<forall>r. fst (try_get_artwork get url size') = Returns (Some r) \<longleftrightarrow>
         get (str_replace url (py ''large'') size') = Returns r \<and> status_code r = 200 \<and>
         str_lower (case content_type r of None \<Rightarrow> [] | Some header \<Rightarrow> header)
           \<in> set (map py [''image/png'', ''image/jpeg'', ''image/jpg''])) \<and>
   (let base = (case track_artwork_url track of
                  None \<Rightarrow> track_avatar_url track
                | Some u \<Rightarrow> if u = [] then track_avatar_url track else u);
        original = try_get_artwork get base (py ''original'');
        fallback = try_get_artwork get base (py ''t500x500'')
    in snd (add_metadata_to_stream get dash_order track kwargs) =
         (if kw_original_art kwargs
          then str_replace base (py ''large'') (py ''original'') #
               (if fst original = Returns None
                then [str_replace base (py ''large'') (py ''t500x500'')] else [])
          else [str_replace base (py ''large'') (py ''t500x500'')]) \<and>
       ((\<forall>u e. get u = Raises e \<longrightarrow> e = RequestException) \<longrightarrow>
          (\<exists>md tr. fst (add_metadata_to_stream get dash_order track kwargs) = Returns (md, tr) \<and>
             (md_artwork_jpeg md = None \<longleftrightarrow>
                (kw_original_art kwargs \<longrightarrow> fst original = Returns None) \<and>
                fst fallback = Returns None))))"
proof (intro conjI allI)
  fix r
  show "fst (try_get_artwork get url size') = Returns (Some r) \<longleftrightarrow>
         get (str_replace url (py ''large'') size') = Returns r \<and> status_code r = 200 \<and>
         str_lower (case content_type r of None \<Rightarrow> [] | Some header \<Rightarrow> header)
           \<in> set (map py [''image/png'', ''image/jpeg'', ''image/jpg''])"
    by (auto simp: try_get_artwork_def Let_def split: result.splits exn.splits)
next
  define base where "base = (case track_artwork_url track of
                  None \<Rightarrow> track_avatar_url track
                | Some u \<Rightarrow> if u = [] then track_avatar_url track else u)"
  have urls: "snd (try_get_artwork get base s) = [str_replace base (py ''large'') s]" for s
    by (simp add: try_get_artwork_def Let_def)
  have noraise: "\<exists>r. fst (try_get_artwork get base s) = Returns r"
    if "\<forall>u e. get u = Raises e \<longrightarrow> e = RequestException" for s
    using that by (auto simp: try_get_artwork_def Let_def split: result.splits exn.splits)
  have none: "fst (try_get_artwork get base s) = Returns (Some r) \<Longrightarrow> map_option body (Some r) \<noteq> None"
    for s r by simp
  obtain o1 u1 where o1: "try_get_artwork get base (py ''original'') = (o1, u1)"
    by (cases "try_get_artwork get base (py ''original'')")
  obtain o2 u2 where o2: "try_get_artwork get base (py ''t500x500'') = (o2, u2)"
    by (cases "try_get_artwork get base (py ''t500x500'')")
  have u1: "u1 = [str_replace base (py ''large'') (py ''original'')]" using urls [of "py ''original''"] o1 by simp
  have u2: "u2 = [str_replace base (py ''large'') (py ''t500x500'')]" using urls [of "py ''t500x500''"] o2 by simp
  have p1: "snd (add_metadata_to_stream get dash_order track kwargs) =
         (if kw_original_art kwargs
          then str_replace base (py ''large'') (py ''original'') #
               (if o1 = Returns None
                then [str_replace base (py ''large'') (py ''t500x500'')] else [])
          else [str_replace base (py ''large'') (py ''t500x500'')])"
    unfolding add_metadata_to_stream_def Let_def base_def [symmetric]
    by (auto simp: o1 o2 u1 u2 split: result.splits prod.splits option.splits)
  have p2: "\<exists>md tr. fst (add_metadata_to_stream get dash_order track kwargs) = Returns (md, tr) \<and>
             (md_artwork_jpeg md = None \<longleftrightarrow>
                (kw_original_art kwargs \<longrightarrow> o1 = Returns None) \<and> o2 = Returns None)"
    if h: "\<forall>u e. get u = Raises e \<longrightarrow> e = RequestException"
  proof -
    from noraise [OF h, of "py ''original''"] o1 obtain r1 where r1: "o1 = Returns r1" by auto
    from noraise [OF h, of "py ''t500x500''"] o2 obtain r2 where r2: "o2 = Returns r2" by auto
    show ?thesis
      unfolding add_metadata_to_stream_def Let_def base_def [symmetric]
      by (auto simp: o1 o2 r1 r2 split: prod.splits option.splits)
  qed
  show "let base = (case track_artwork_url track of
                  None \<Rightarrow> track_avatar_url track
                | Some u \<Rightarrow> if u = [] then track_avatar_url track else u);
        original = try_get_artwork get base (py ''original'');
        fallback = try_get_artwork get base (py ''t500x500'')
    in snd (add_metadata_to_stream get dash_order track kwargs) =
         (if kw_original_art kwargs
          then str_replace base (py ''large'') (py ''original'') #
               (if fst original = Returns None
                then [str_replace base (py ''large'') (py ''t500x500'')] else [])
          else [str_replace base (py ''large'') (py ''t500x500'')]) \<and>
       ((\<forall>u e. get u = Raises e \<longrightarrow> e = RequestException) \<longrightarrow>
          (\<exists>md tr. fst (add_metadata_to_stream get dash_order track kwargs) = Returns (md, tr) \<and>
             (md_artwork_jpeg md = None \<longleftrightarrow>
                (kw_original_art kwargs \<longrightarrow> fst original = Returns None) \<and>
                fst fallback = Returns None)))"
    unfolding Let_def base_def [symmetric] using p1 p2 by (simp add: o1 o2)
qed

text \<open>
  The theorem at a server without the original artwork (the 500x500 JPEG is taken,
  after the original was tried when asked for) and at a server that cannot be reached
  (no artwork, no error).
\<close>

theorem artwork_attempts_witness:
  "add_metadata_to_stream example_get dashes example_track (no_options\<lparr>kw_original_art := True\<rparr>)
     = (Returns (\<lparr>md_artist = py ''a'', md_title = py ''Song'', md_artwork_jpeg = Some [9]\<rparr>,
                 example_track),
        [py ''https://i1.sndcdn.com/avatars-original.jpg'',
         py ''https://i1.sndcdn.com/avatars-t500x500.jpg'']) \<and>
   add_metadata_to_stream example_get dashes example_track no_options
     = (Returns (\<lparr>md_artist = py ''a'', md_title = py ''Song'', md_artwork_jpeg = Some [9]\<rparr>,
                 example_track),
        [py ''https://i1.sndcdn.com/avatars-t500x500.jpg'']) \<and>
   add_metadata_to_stream unreachable_get dashes example_track (no_options\<lparr>kw_original_art := True\<rparr>)
     = (Returns (\<lparr>md_artist = py ''a'', md_title = py ''Song'', md_artwork_jpeg = None\<rparr>,
                 example_track),
        [py ''https://i1.sndcdn.com/avatars-original.jpg'',
         py ''https://i1.sndcdn.com/avatars-t500x500.jpg''])"
  using artwork_attempts [of unreachable_get "py ''x''" "py ''original''" example_track dashes
      "no_options\<lparr>kw_original_art := True\<rparr>"]
  by (simp add: md_eval_defs example_get_def)

text \<open>
  C7 as the specification words it fails: a response with status 200 and the content
  type \<open>image/jpg\<close>, which is neither \<open>image/png\<close> nor \<open>image/jpeg\<close>, yields
  artwork.
\<close>

theorem artwork_jpg_counterexample:
  "fst (try_get_artwork jpg_get (py ''https://i1.sndcdn.com/artworks-large.jpg'') (py ''t500x500''))
     = Returns (Some \<lparr>status_code = 200, content_type = Some (py ''image/jpg''), body = [1]\<rparr>) \<and>
   py ''image/jpg'' \<noteq> py ''image/png'' \<and> py ''image/jpg'' \<noteq> py ''image/jpeg''"
  by (simp add: md_eval_defs jpg_get_def)

lemma extract_artist_find:
  "extract_artist dash_order artist title =
     (case List.find (str_contains title) dash_order of
        None \<Rightarrow> (artist, title)
      | Some dash \<Rightarrow> (str_strip (str_split1 title dash ! 0), str_strip (str_split1 title dash ! 1)))"
  by (induction dash_order) (simp_all add: Let_def)

lemma str_split1_contains:
  assumes "str_contains title dash"
  shows "\<exists>i. str_find title dash = Some i \<and>
             str_split1 title dash = [take i title, drop (i + length dash) title]"
  using assms by (auto simp: str_contains_def str_split1_def)

lemma length_dash: "dash \<in> set dashes \<Longrightarrow> length dash = 3"
  by (auto simp: dashes_def)

text \<open>
  C8, as the code has it. The separators are the five dash glyphs each between two
  spaces. With the extraction enabled, take the first separator, in the order the set
  of separators is iterated, that occurs in the title: the text left of its first
  occurrence, stripped, is the artist, and the text right of it, stripped, is the
  title, also of the track; further occurrences stay in the title. If none of the five
  separators occurs in the title, the title is unchanged and the artist is the
  username.
\<close>

theorem artist_extraction:
  assumes "kw_extract_artist kwargs" and "set dash_order = set dashes"
    and "fst (add_metadata_to_stream get dash_order track kwargs) = Returns (md, tr)"
  shows "(case List.find (str_contains (track_title track)) dash_order of
            None \<Rightarrow> md_artist md = track_username track \<and> md_title md = track_title track
          | Some dash \<Rightarrow>
              dash \<in> set dashes \<and>
              (\<exists>i. str_find (track_title track) dash = Some i \<and>
                   md_artist md = str_strip (take i (track_title track)) \<and>
                   md_title md = str_strip (drop (i + 3) (track_title track)))) \<and>
         (List.find (str_contains (track_title track)) dash_order = None \<longleftrightarrow>
            (\<forall>dash\<in>set dashes. \<not> str_contains (track_title track) dash)) \<and>
         track_title tr = md_title md"
proof -
  let ?title = "track_title track"
  have res: "(md_artist md, md_title md) = extract_artist dash_order (track_username track) ?title"
    and tr: "track_title tr = md_title md"
    using assms(1,3)
    by (auto simp: add_metadata_to_stream_def Let_def split: prod.splits result.splits if_splits)
  have none: "List.find (str_contains ?title) dash_order = None \<longleftrightarrow>
            (\<forall>dash\<in>set dashes. \<not> str_contains ?title dash)"
    using assms(2) by (auto simp: find_None_iff)
  have main: "(case List.find (str_contains ?title) dash_order of
            None \<Rightarrow> md_artist md = track_username track \<and> md_title md = ?title
          | Some dash \<Rightarrow>
              dash \<in> set dashes \<and>
              (\<exists>i. str_find ?title dash = Some i \<and>
                   md_artist md = str_strip (take i ?title) \<and>
                   md_title md = str_strip (drop (i + 3) ?title)))"
  proof (cases "List.find (str_contains ?title) dash_order")
    case None
    then show ?thesis using res by (simp add: extract_artist_find)
  next
    case (Some dash)
    then have in_order: "dash \<in> set dash_order" and c: "str_contains ?title dash"
      by (auto simp: find_Some_iff)
    then have d: "dash \<in> set dashes" using assms(2) by simp
    from str_split1_contains [OF c] obtain i where
      i: "str_find ?title dash = Some i"
         "str_split1 ?title dash = [take i ?title, drop (i + length dash) ?title]"
      by blast
    have "md_artist md = str_strip (take i ?title)"
      and "md_title md = str_strip (drop (i + 3) ?title)"
      using res Some i(2) length_dash [OF d] by (simp_all add: extract_artist_find)
    then show ?thesis using Some d i(1) by simp
  qed
  show ?thesis using main none tr by blast
qed

text \<open>
  The theorem at the title "Artist - Song Name"; "A - B - C" is split once; a title
  without a separator is left as it is.
\<close>

theorem artist_extraction_witness:
  "fst (add_metadata_to_stream unreachable_get dashes (titled_track (py ''Artist - Song Name''))
          (no_options\<lparr>kw_extract_artist := True\<rparr>))
     = Returns (\<lparr>md_artist = py ''Artist'', md_title = py ''Song Name'', md_artwork_jpeg = None\<rparr>,
                titled_track (py ''Song Name'')) \<and>
   fst (add_metadata_to_stream unreachable_get dashes (titled_track (py ''A - B - C''))
          (no_options\<lparr>kw_extract_artist := True\<rparr>))
     = Returns (\<lparr>md_artist = py ''A'', md_title = py ''B - C'', md_artwork_jpeg = None\<rparr>,
                titled_track (py ''B - C'')) \<and>
   fst (add_metadata_to_stream unreachable_get dashes (titled_track (py ''Song Name''))
          (no_options\<lparr>kw_extract_artist := True\<rparr>))
     = Returns (\<lparr>md_artist = py ''uploader'', md_title = py ''Song Name'', md_artwork_jpeg = None\<rparr>,
                titled_track (py ''Song Name''))"
proof -
  let ?kw = "no_options\<lparr>kw_extract_artist := True\<rparr>"
  let ?md = "\<lparr>md_artist = py ''Artist'', md_title = py ''Song Name'', md_artwork_jpeg = None\<rparr>"
  have h1: "kw_extract_artist ?kw" by simp
  have h3: "fst (add_metadata_to_stream unreachable_get dashes (titled_track (py ''Artist - Song Name'')) ?kw)
     = Returns (?md, titled_track (py ''Song Name''))"
    by (simp add: md_eval_defs titled_track_def)
  note t = artist_extraction [OF h1 refl h3]
  have rest: "fst (add_metadata_to_stream unreachable_get dashes (titled_track (py ''A - B - C'')) ?kw)
     = Returns (\<lparr>md_artist = py ''A'', md_title = py ''B - C'', md_artwork_jpeg = None\<rparr>,
                titled_track (py ''B - C''))"
    "fst (add_metadata_to_stream unreachable_get dashes (titled_track (py ''Song Name'')) ?kw)
     = Returns (\<lparr>md_artist = py ''uploader'', md_title = py ''Song Name'', md_artwork_jpeg = None\<rparr>,
                titled_track (py ''Song Name''))"
    by (simp_all add: md_eval_defs titled_track_def)
  show ?thesis using t h3 rest by simp
qed

text \<open>
  C8 as the specification words it fails: the title "Artist-Song" contains the hyphen
  glyph, and nothing is extracted, because no space surrounds it.
\<close>

theorem artist_hyphen_counterexample:
  "45 \<in> set (py ''Artist-Song'') \<and>
   fst (add_metadata_to_stream unreachable_get dashes (titled_track (py ''Artist-Song''))
          (no_options\<lparr>kw_extract_artist := True\<rparr>))
     = Returns (\<lparr>md_artist = py ''uploader'', md_title = py ''Artist-Song'', md_artwork_jpeg = None\<rparr>,
                titled_track (py ''Artist-Song''))"
  by (simp add: md_eval_defs titled_track_def)

end
